theory Spec2Isabelle
  imports Complex_Main
begin

section \<open>JavaScript values\<close>

text \<open>
  The route handlers receive JSON and hand JavaScript values to their collaborators.
  A value is \<open>undefined\<close> (an absent property) or a JSON value. A number is the
  real value of the double (zero stands for both zeros); an object lists its own
  properties, each name once. A string is the list of its UTF-16 code units, and the
  model covers the code units below 256 (ASCII and Latin-1), one \<^typ>\<open>char\<close> each.
\<close>

datatype jsval =
    JUndefined
  | JNull
  | JBool bool
  | JNum real
  | JStr string
  | JArr "jsval list"
  | JObj "(string \<times> jsval) list"

text \<open>What a \<open>throw\<close> carries: a TypeError of the language, or an exception of a collaborator.\<close>

datatype error = TypeError | Exn string

text \<open>\<open>!v\<close> is \<open>\<not> truthy v\<close>: undefined, null, false, 0 and the empty string are falsy.\<close>

fun truthy :: "jsval \<Rightarrow> bool" where
  "truthy JUndefined = False"
| "truthy JNull = False"
| "truthy (JBool b) = b"
| "truthy (JNum n) = (n \<noteq> 0)"
| "truthy (JStr s) = (s \<noteq> [])"
| "truthy (JArr xs) = True"
| "truthy (JObj kvs) = True"

text \<open>\<open>a || b\<close>\<close>

definition js_or :: "jsval \<Rightarrow> jsval \<Rightarrow> jsval" where
  "js_or a b = (if truthy a then a else b)"

text \<open>
  Reading a property, as the destructuring \<open>const { email, password } = v\<close> and the
  access \<open>v.success\<close> do: a TypeError on null and undefined, the own property of an
  object, and undefined otherwise (none of the names this program reads is a property
  of a string, an array, a number or a boolean).
\<close>

fun get_prop :: "jsval \<Rightarrow> string \<Rightarrow> error + jsval" where
  "get_prop JUndefined k = Inl TypeError"
| "get_prop JNull k = Inl TypeError"
| "get_prop (JObj kvs) k = (case map_of kvs k of None \<Rightarrow> Inr JUndefined | Some v \<Rightarrow> Inr v)"
| "get_prop v k = Inr JUndefined"

subsection \<open>Strings\<close>

definition digit_char :: "nat \<Rightarrow> char" where
  "digit_char d = char_of (48 + d)"

function nat_digits :: "nat \<Rightarrow> string" where
  "nat_digits n = (if n < 10 then [digit_char n] else nat_digits (n div 10) @ [digit_char (n mod 10)])"
  by pat_completeness auto
termination
  by (relation "measure id") auto

declare nat_digits.simps [simp del]

definition int_digits :: "int \<Rightarrow> string" where
  "int_digits i = (if i < 0 then CHR ''-'' # nat_digits (nat (- i)) else nat_digits (nat i))"

fun join_comma :: "string list \<Rightarrow> string" where
  "join_comma [] = []"
| "join_comma [s] = s"
| "join_comma (s # t # ss) = s @ CHR '','' # join_comma (t # ss)"

text \<open>The results of a list of conversions, or the first exception among them.\<close>

fun collect :: "(error + 'a) list \<Rightarrow> error + 'a list" where
  "collect [] = Inr []"
| "collect (Inl e # rs) = Inl e"
| "collect (Inr x # rs) = (case collect rs of Inl e \<Rightarrow> Inl e | Inr xs \<Rightarrow> Inr (x # xs))"

text \<open>
  \<open>String(v)\<close>, the conversion that \<open>regex.test(v)\<close> applies too. It can throw.
  The digits of a number are those of \<open>Number.prototype.toString\<close>, a parameter
  \<open>ns\<close> of the model. An array is its elements joined by commas, null and undefined
  elements as the empty string, and the conversion of an element may throw. An object
  is converted by the \<open>toString\<close> it inherits, to \<open>[object Object]\<close>, unless it
  has an own property of that name: no JSON value is callable, the inherited
  \<open>valueOf\<close> returns the object itself, and the conversion throws a TypeError.
\<close>

fun js_String :: "(real \<Rightarrow> string) \<Rightarrow> jsval \<Rightarrow> error + string" where
  "js_String ns JUndefined = Inr ''undefined''"
| "js_String ns JNull = Inr ''null''"
| "js_String ns (JBool b) = Inr (if b then ''true'' else ''false'')"
| "js_String ns (JNum x) = Inr (ns x)"
| "js_String ns (JStr s) = Inr s"
| "js_String ns (JArr xs) =
     (case collect (map (\<lambda>x. if x = JNull \<or> x = JUndefined then Inr [] else js_String ns x) xs) of
        Inl e \<Rightarrow> Inl e
      | Inr ss \<Rightarrow> Inr (join_comma ss))"
| "js_String ns (JObj kvs) =
     (if map_of kvs ''toString'' = None then Inr ''[object Object]'' else Inl TypeError)"

text \<open>
  White space and line terminators, as \<open>trim\<close> and the regular expression class
  \<open>\s\<close> know them: tab, line feed, vertical tab, form feed, carriage return, space and
  the no-break space.
\<close>

definition is_space :: "char \<Rightarrow> bool" where
  "is_space c = ((of_char c :: nat) \<in> {9, 10, 11, 12, 13, 32, 160})"

definition trim :: "string \<Rightarrow> string" where
  "trim s = rev (dropWhile is_space (rev (dropWhile is_space s)))"

text \<open>
  \<open>toLowerCase\<close> and \<open>toUpperCase\<close> on code units below 256: the letters A to Z,
  and the Latin-1 letters 192 to 222 without the multiplication sign 215, are 32 below
  their lower-case forms. The sharp s (223) and the y with diaeresis (255) have no
  upper-case form below 256 and are outside the model of \<open>toUpperCase\<close>.
\<close>

definition is_upper :: "char \<Rightarrow> bool" where
  "is_upper c = (let n = (of_char c :: nat) in (65 \<le> n \<and> n \<le> 90) \<or> (192 \<le> n \<and> n \<le> 222 \<and> n \<noteq> 215))"

definition lower_char :: "char \<Rightarrow> char" where
  "lower_char c = (if is_upper c then char_of ((of_char c :: nat) + 32) else c)"

definition toLowerCase :: "string \<Rightarrow> string" where
  "toLowerCase s = map lower_char s"

section \<open>Responses and collaborator calls\<close>

record cookie =
  cookie_name :: string
  cookie_value :: string
  httpOnly :: bool
  secure :: bool
  sameSite :: string
  maxAge :: nat
  path :: string

record response =
  status :: nat
  body :: jsval
  cookies :: "cookie list"

text \<open>\<open>NextResponse.json(body, { status })\<close>; the status is 200 when none is given.\<close>

definition NextResponse_json :: "jsval \<Rightarrow> nat \<Rightarrow> response" where
  "NextResponse_json b st = \<lparr> status = st, body = b, cookies = [] \<rparr>"

text \<open>\<open>response.cookies.set(name, value, options)\<close>\<close>

definition cookies_set :: "response \<Rightarrow> cookie \<Rightarrow> response" where
  "cookies_set r c = r \<lparr> cookies := filter (\<lambda>d. cookie_name d \<noteq> cookie_name c) (cookies r) @ [c] \<rparr>"

text \<open>
  The calls a handler makes, in order: the trace says which collaborator was called
  with what, and what was logged.
\<close>

datatype event =
    Call_getUserCollection
  | Call_findOne string
  | Call_bcrypt_compare jsval jsval
  | Call_jwt_sign jsval string string
  | Call_sendContactEmail jsval
  | Call_console_error string error

section \<open>The login handler\<close>

text \<open>A user document, as the handler reads it; \<open>user_id\<close> is \<open>user._id.toString()\<close>.\<close>

record user =
  user_id :: string
  user_email :: jsval
  user_password :: jsval
  user_firstName :: jsval
  user_username :: jsval
  user_lastName :: jsval
  user_dob :: jsval
  user_avatar :: jsval

text \<open>
  What the handler depends on: the number formatting of the language, the parsed body
  (\<open>await req.json()\<close>, which may throw), the user collection with its
  \<open>findOne({ email })\<close> (null is \<open>None\<close>), \<open>bcrypt.compare\<close>,
  \<open>jwt.sign\<close>, and the two environment variables.
\<close>

record js_runtime =
  Number_toString :: "real \<Rightarrow> string"

record login_env = js_runtime +
  req_json :: "error + jsval"
  getUserCollection :: "error + (string \<Rightarrow> error + user option)"
  bcrypt_compare :: "jsval \<Rightarrow> jsval \<Rightarrow> error + bool"
  jwt_sign :: "jsval \<Rightarrow> string \<Rightarrow> string \<Rightarrow> error + string"
  env_JWT_SECRET :: "string option"
  env_NODE_ENV :: "string option"

text \<open>\<open>process.env.JWT_SECRET || "supersecret"\<close>\<close>

definition JWT_SECRET :: "login_env \<Rightarrow> string" where
  "JWT_SECRET E = (case env_JWT_SECRET E of None \<Rightarrow> ''supersecret'' | Some s \<Rightarrow> if s = [] then ''supersecret'' else s)"

text \<open>\<open>String(email).trim().toLowerCase()\<close>, which throws when the conversion does.\<close>

definition normalize_email :: "(real \<Rightarrow> string) \<Rightarrow> jsval \<Rightarrow> error + string" where
  "normalize_email ns email =
     (case js_String ns email of
        Inl e \<Rightarrow> Inl e
      | Inr s \<Rightarrow> Inr (toLowerCase (trim s)))"

definition token_payload :: "user \<Rightarrow> jsval" where
  "token_payload u = JObj [(''id'', JStr (user_id u)), (''email'', user_email u)]"

definition login_success_body :: "user \<Rightarrow> jsval" where
  "login_success_body u = JObj
     [(''message'', JStr ''Login successful''),
      (''user'', JObj
        [(''id'', JStr (user_id u)),
         (''email'', user_email u),
         (''firstName'', js_or (user_firstName u) (user_username u)),
         (''lastName'', js_or (user_lastName u) (JStr [])),
         (''dob'', user_dob u),
         (''avatar'', user_avatar u)])]"

definition auth_cookie :: "login_env \<Rightarrow> string \<Rightarrow> cookie" where
  "auth_cookie E token =
     \<lparr> cookie_name = ''auth_token'', cookie_value = token, httpOnly = True,
       secure = (env_NODE_ENV E = Some ''production''), sameSite = ''lax'',
       maxAge = 3600, path = ''/'' \<rparr>"

definition msg :: "string \<Rightarrow> jsval" where
  "msg m = JObj [(''message'', JStr m)]"

text \<open>
  The body of the \<open>try\<close> block: the response it returns or the exception it throws,
  with the calls made up to there.
\<close>

definition login_verify :: "login_env \<Rightarrow> jsval \<Rightarrow> user \<Rightarrow> event list \<Rightarrow> (error + response) \<times> event list" where
  "login_verify E password u tr =
     (if \<not> truthy (user_password u) then
        (Inr (NextResponse_json
           (msg ''This account uses Google Sign-In. Please sign in with Google or reset your password.'') 400), tr)
      else
        (let tr1 = tr @ [Call_bcrypt_compare password (user_password u)] in
         case bcrypt_compare E password (user_password u) of
           Inl e \<Rightarrow> (Inl e, tr1)
         | Inr isPasswordValid \<Rightarrow>
             if \<not> isPasswordValid then
               (Inr (NextResponse_json (msg ''Invalid credentials'') 401), tr1)
             else
               (let tr2 = tr1 @ [Call_jwt_sign (token_payload u) (JWT_SECRET E) ''1h''] in
                case jwt_sign E (token_payload u) (JWT_SECRET E) ''1h'' of
                  Inl e \<Rightarrow> (Inl e, tr2)
                | Inr token \<Rightarrow>
                    (Inr (cookies_set (NextResponse_json (login_success_body u) 200)
                            (auth_cookie E token)), tr2))))"

definition login_lookup :: "login_env \<Rightarrow> jsval \<Rightarrow> jsval \<Rightarrow> (error + response) \<times> event list" where
  "login_lookup E email password =
     (case normalize_email (Number_toString E) email of
        Inl e \<Rightarrow> (Inl e, [])
      | Inr normalizedEmail \<Rightarrow>
          (case getUserCollection E of
             Inl e \<Rightarrow> (Inl e, [Call_getUserCollection])
           | Inr users \<Rightarrow>
               (let tr = [Call_getUserCollection, Call_findOne normalizedEmail] in
                case users normalizedEmail of
                  Inl e \<Rightarrow> (Inl e, tr)
                | Inr None \<Rightarrow> (Inr (NextResponse_json (msg ''Invalid credentials'') 401), tr)
                | Inr (Some u) \<Rightarrow> login_verify E password u tr)))"

definition login_try :: "login_env \<Rightarrow> (error + response) \<times> event list" where
  "login_try E =
     (case req_json E of
        Inl e \<Rightarrow> (Inl e, [])
      | Inr parsed \<Rightarrow>
          (case get_prop parsed ''email'' of
             Inl e \<Rightarrow> (Inl e, [])
           | Inr email \<Rightarrow>
               (case get_prop parsed ''password'' of
                  Inl e \<Rightarrow> (Inl e, [])
                | Inr password \<Rightarrow>
                    if \<not> truthy email \<or> \<not> truthy password then
                      (Inr (NextResponse_json (msg ''Missing email or password'') 400), [])
                    else login_lookup E email password)))"

text \<open>The handler: the \<open>catch\<close> logs the exception and answers 500.\<close>

definition login_POST :: "login_env \<Rightarrow> response \<times> event list" where
  "login_POST E =
     (case login_try E of
        (Inr r, tr) \<Rightarrow> (r, tr)
      | (Inl e, tr) \<Rightarrow>
          (NextResponse_json (msg ''Internal server error'') 500,
           tr @ [Call_console_error ''Login error:'' e]))"

section \<open>The contact handler\<close>

subsection \<open>Regular expressions\<close>

text \<open>
  The fragment of regular expressions the handler's pattern needs, matched by
  derivatives. A negated class lists characters and the escape \<open>\s\<close>.
\<close>

datatype cls_item = C_char char | C_space

fun in_item :: "char \<Rightarrow> cls_item \<Rightarrow> bool" where
  "in_item c (C_char d) = (c = d)"
| "in_item c C_space = is_space c"

datatype rx =
    Zero
  | One
  | Chr char
  | NegCls "cls_item list"
  | Alt rx rx
  | Seq rx rx
  | Star rx
  | Plus rx

fun nullable :: "rx \<Rightarrow> bool" where
  "nullable Zero = False"
| "nullable One = True"
| "nullable (Chr d) = False"
| "nullable (NegCls items) = False"
| "nullable (Alt r s) = (nullable r \<or> nullable s)"
| "nullable (Seq r s) = (nullable r \<and> nullable s)"
| "nullable (Star r) = True"
| "nullable (Plus r) = nullable r"

fun deriv :: "char \<Rightarrow> rx \<Rightarrow> rx" where
  "deriv c Zero = Zero"
| "deriv c One = Zero"
| "deriv c (Chr d) = (if c = d then One else Zero)"
| "deriv c (NegCls items) = (if list_ex (in_item c) items then Zero else One)"
| "deriv c (Alt r s) = Alt (deriv c r) (deriv c s)"
| "deriv c (Seq r s) =
     (if nullable r then Alt (Seq (deriv c r) s) (deriv c s) else Seq (deriv c r) s)"
| "deriv c (Star r) = Seq (deriv c r) (Star r)"
| "deriv c (Plus r) = Seq (deriv c r) (Star r)"

fun rx_matches :: "rx \<Rightarrow> string \<Rightarrow> bool" where
  "rx_matches r [] = nullable r"
| "rx_matches r (c # cs) = rx_matches (deriv c r) cs"

text \<open>
  The language of an expression, against which the matcher is checked: concatenation,
  iteration, and the strings of each form.
\<close>

definition conc :: "string set \<Rightarrow> string set \<Rightarrow> string set" where
  "conc A B = {a @ b | a b. a \<in> A \<and> b \<in> B}"

inductive_set star :: "string set \<Rightarrow> string set" for A :: "string set" where
  star_empty: "[] \<in> star A"
| star_more: "a \<in> A \<Longrightarrow> w \<in> star A \<Longrightarrow> a @ w \<in> star A"

fun lang :: "rx \<Rightarrow> string set" where
  "lang Zero = {}"
| "lang One = {[]}"
| "lang (Chr d) = {[d]}"
| "lang (NegCls items) = {[c] | c. \<not> list_ex (in_item c) items}"
| "lang (Alt r s) = lang r \<union> lang s"
| "lang (Seq r s) = conc (lang r) (lang s)"
| "lang (Star r) = star (lang r)"
| "lang (Plus r) = conc (lang r) (star (lang r))"

text \<open>A character that is neither white space nor the at sign.\<close>

definition plain :: "char \<Rightarrow> bool" where
  "plain c = (\<not> is_space c \<and> c \<noteq> CHR ''@'')"

text \<open>
  \<open>regex.test(v)\<close> for a pattern anchored at both ends (\<open>^...$\<close>, no flags): the
  argument is converted to a string first, and the call throws when the conversion does.
\<close>

definition RegExp_test :: "(real \<Rightarrow> string) \<Rightarrow> rx \<Rightarrow> jsval \<Rightarrow> error + bool" where
  "RegExp_test ns r v =
     (case js_String ns v of
        Inl e \<Rightarrow> Inl e
      | Inr s \<Rightarrow> Inr (rx_matches r s))"

text \<open>\<open>/^[^\s@]+@[^\s@]+\.[^\s@]+$/\<close>\<close>

definition emailRegex :: rx where
  "emailRegex =
     Seq (Plus (NegCls [C_space, C_char CHR ''@'']))
      (Seq (Chr CHR ''@'')
        (Seq (Plus (NegCls [C_space, C_char CHR ''@'']))
          (Seq (Chr CHR ''.'')
            (Plus (NegCls [C_space, C_char CHR ''@''])))))"

subsection \<open>The handler\<close>

text \<open>
  The handler depends on the number formatting of the language, on the parsed body and
  on \<open>sendContactEmail\<close>, which returns a result object or throws.
\<close>

record contact_env = js_runtime +
  request_json :: "error + jsval"
  sendContactEmail :: "jsval \<Rightarrow> error + jsval"

definition err :: "string \<Rightarrow> jsval" where
  "err m = JObj [(''error'', JStr m)]"

definition contact_payload :: "jsval \<Rightarrow> jsval \<Rightarrow> jsval \<Rightarrow> jsval \<Rightarrow> jsval \<Rightarrow> jsval" where
  "contact_payload firstName lastName email institution message = JObj
     [(''firstName'', firstName),
      (''lastName'', lastName),
      (''email'', email),
      (''institution'', js_or institution (JStr ''Not specified'')),
      (''message'', message)]"

definition contact_success_body :: jsval where
  "contact_success_body = JObj
     [(''success'', JBool True),
      (''message'', JStr (''Message sent successfully! We'' @ [CHR 0x27] @ ''ll get back to you soon.''))]"

definition contact_send :: "contact_env \<Rightarrow> jsval \<Rightarrow> (error + response) \<times> event list" where
  "contact_send E payload =
     (let tr = [Call_sendContactEmail payload] in
      case sendContactEmail E payload of
        Inl e \<Rightarrow> (Inl e, tr)
      | Inr emailResult \<Rightarrow>
          (case get_prop emailResult ''success'' of
             Inl e \<Rightarrow> (Inl e, tr)
           | Inr success \<Rightarrow>
               if \<not> truthy success then
                 (Inr (NextResponse_json (err ''Failed to send message. Please try again.'') 500), tr)
               else (Inr (NextResponse_json contact_success_body 200), tr)))"

definition contact_validate ::
  "contact_env \<Rightarrow> jsval \<Rightarrow> jsval \<Rightarrow> jsval \<Rightarrow> jsval \<Rightarrow> jsval \<Rightarrow> (error + response) \<times> event list" where
  "contact_validate E firstName lastName email institution message =
     (if \<not> truthy firstName \<or> \<not> truthy lastName \<or> \<not> truthy email \<or> \<not> truthy message then
        (Inr (NextResponse_json (err ''All fields are required'') 400), [])
      else
        (case RegExp_test (Number_toString E) emailRegex email of
           Inl e \<Rightarrow> (Inl e, [])
         | Inr valid \<Rightarrow>
             if \<not> valid then
               (Inr (NextResponse_json (err ''Please enter a valid email address'') 400), [])
             else contact_send E (contact_payload firstName lastName email institution message)))"

text \<open>
  The destructuring of the parsed body throws on null, and reads the five properties
  otherwise.
\<close>

definition contact_try :: "contact_env \<Rightarrow> (error + response) \<times> event list" where
  "contact_try E =
     (case request_json E of
        Inl e \<Rightarrow> (Inl e, [])
      | Inr parsed \<Rightarrow>
          (case get_prop parsed ''firstName'' of
             Inl e \<Rightarrow> (Inl e, [])
           | Inr firstName \<Rightarrow>
               (case (get_prop parsed ''lastName'', get_prop parsed ''email'',
                      get_prop parsed ''institution'', get_prop parsed ''message'') of
                  (Inr lastName, Inr email, Inr institution, Inr message) \<Rightarrow>
                    contact_validate E firstName lastName email institution message
                | _ \<Rightarrow> (Inl TypeError, []))))"

definition contact_POST :: "contact_env \<Rightarrow> response \<times> event list" where
  "contact_POST E =
     (case contact_try E of
        (Inr r, tr) \<Rightarrow> (r, tr)
      | (Inl e, tr) \<Rightarrow>
          (NextResponse_json (err ''Internal server error. Please try again later.'') 500,
           tr @ [Call_console_error ''Contact form error:'' e]))"

section \<open>The seed script\<close>

text \<open>
  Numbers of the script are modelled as real numbers with exact arithmetic: the comparisons,
  \<open>Math.floor\<close> and \<open>Math.round\<close> are the mathematical ones, and the rounding of
  floating-point multiplication, addition and division is not modelled.
  \<open>Math.random()\<close> is a parameter: \<open>random E k\<close> is what its call number \<open>k\<close>
  returns, and every function that draws takes the number of calls made so far and
  returns it updated.
\<close>

record doc =
  createdAt :: int
  region :: string
  species :: "string option"
  speciesCount :: int
  conservationStatus :: "string option"
  waterQuality :: real
  threatLevel :: string
  temperature :: real
  depth :: int
  coordinates :: "real list"
  location :: string

datatype seed_event =
    Console_error string "error option"
  | Console_log string
  | New_MongoClient string
  | Connect
  | CreateIndex "(string \<times> int) list"
  | InsertMany string "doc list"
  | Close

text \<open>How \<open>main()\<close> ends: \<open>process.exit(code)\<close>, its promise fulfilled (with the
  \<open>process.exitCode\<close> it set, if any), or its promise rejected.\<close>

datatype outcome = Exited nat | Returned "nat option" | Rejected error

text \<open>
  What the script depends on: the environment variables (after \<open>loadDotEnv\<close>), the
  clock, \<open>Math.random\<close>, \<open>Number.prototype.toFixed\<close>, and the MongoDB client:
  its constructor, \<open>connect\<close>, the three \<open>createIndex\<close> calls awaited together,
  \<open>insertMany\<close> (returning \<open>insertedCount\<close>) and \<open>close\<close>.
\<close>

record seed_env =
  process_env :: "string \<Rightarrow> string option"
  now_getTime :: int
  random :: "nat \<Rightarrow> real"
  toFixed :: "real \<Rightarrow> nat \<Rightarrow> string"
  new_MongoClient :: "string \<Rightarrow> error + unit"
  connect :: "error + unit"
  createIndexes :: "error + unit"
  insertMany :: "doc list \<Rightarrow> error + nat"
  close :: "error + unit"

definition getEnv :: "seed_env \<Rightarrow> string \<Rightarrow> string option \<Rightarrow> string option" where
  "getEnv E name fallback =
     (case process_env E name of
        None \<Rightarrow> fallback
      | Some v \<Rightarrow> if v = [] then fallback else Some v)"

text \<open>\<open>s.split(c)\<close> for a one-character separator\<close>

fun split_on :: "char \<Rightarrow> string \<Rightarrow> string list" where
  "split_on c [] = [[]]"
| "split_on c (x # xs) =
     (if x = c then [] # split_on c xs
      else (case split_on c xs of w # ws \<Rightarrow> (x # w) # ws | [] \<Rightarrow> [[x]]))"

text \<open>\<open>uri.replace(/^mongodb(\+srv)?:\/\//, "")\<close>\<close>

definition strip_protocol :: "string \<Rightarrow> string" where
  "strip_protocol uri =
     (if take 10 uri = ''mongodb://'' then drop 10 uri
      else if take 14 uri = ''mongodb+srv://'' then drop 14 uri
      else uri)"

definition getDbNameFromUri :: "string \<Rightarrow> string option" where
  "getDbNameFromUri uri =
     (let afterProtocol = strip_protocol uri;
          parts = split_on CHR ''/'' afterProtocol;
          path = (if 1 < length parts \<and> parts ! 1 \<noteq> [] then parts ! 1 else []);
          db = (case split_on CHR ''?'' path of [] \<Rightarrow> [] | first # rest \<Rightarrow> first)
      in if db = [] then None else Some db)"

definition Math_random :: "seed_env \<Rightarrow> nat \<Rightarrow> real \<times> nat" where
  "Math_random E k = (random E k, Suc k)"

definition Math_floor :: "real \<Rightarrow> int" where
  "Math_floor x = \<lfloor>x\<rfloor>"

definition Math_round :: "real \<Rightarrow> int" where
  "Math_round x = \<lfloor>x + 1 / 2\<rfloor>"

text \<open>\<open>list[i]\<close> is undefined (\<open>None\<close>) outside the list.\<close>

definition randomChoice :: "seed_env \<Rightarrow> 'a list \<Rightarrow> nat \<Rightarrow> 'a option \<times> nat" where
  "randomChoice E list k =
     (let (r, k') = Math_random E k;
          i = Math_floor (r * of_nat (length list))
      in (if 0 \<le> i \<and> i < int (length list) then Some (list ! nat i) else None, k'))"

definition randomInRange :: "seed_env \<Rightarrow> real \<Rightarrow> real \<Rightarrow> nat \<Rightarrow> real \<times> nat" where
  "randomInRange E lo hi k = (let (r, k') = Math_random E k in (r * (hi - lo) + lo, k'))"

definition pickThreatByWaterQuality :: "real \<Rightarrow> string" where
  "pickThreatByWaterQuality wq =
     (if wq \<ge> 75 / 10 then ''low''
      else if wq \<ge> 55 / 10 then ''medium''
      else if wq \<ge> 35 / 10 then ''high''
      else ''critical'')"

definition regions :: "string list" where
  "regions = [''pacific'', ''atlantic'', ''indian'', ''arctic'']"

definition speciesPool :: "string list" where
  "speciesPool =
     [''Blue Whale'', ''Loggerhead Turtle'', ''Giant Manta Ray'', ''Great White Shark'',
      ''Humboldt Squid'', ''Atlantic Cod'', ''Clownfish'', ''Emperor Penguin'', ''Narwhal'',
      ''Sea Otter'', ''Sardine'', ''Yellowfin Tuna'', ''Coral Grouper'', ''Dugong'',
      ''Seahorse'', ''Sperm Whale'', ''Albatross'', ''Krill'', ''Flying Fish'', ''Anglerfish'']"

definition statuses :: "string list" where
  "statuses =
     [''Least Concern'', ''Near Threatened'', ''Vulnerable'', ''Endangered'',
      ''Critically Endangered'']"

definition monthsBack :: int where
  "monthsBack = 6"

definition totalDocs :: nat where
  "totalDocs = 100"

record profile =
  temp :: "real \<times> real"
  lat :: "real \<times> real"
  lon :: "real \<times> real"

text \<open>\<open>regionProfiles[region]\<close>, undefined for any other name\<close>

definition regionProfiles :: "string \<Rightarrow> profile option" where
  "regionProfiles r =
     (if r = ''pacific'' then Some \<lparr> temp = (6, 28), lat = (- 40, 40), lon = (- 160, - 120) \<rparr>
      else if r = ''atlantic'' then Some \<lparr> temp = (5, 26), lat = (- 30, 50), lon = (- 60, - 20) \<rparr>
      else if r = ''indian'' then Some \<lparr> temp = (8, 30), lat = (- 35, 20), lon = (50, 100) \<rparr>
      else if r = ''arctic'' then Some \<lparr> temp = (2, 8), lat = (65, 80), lon = (- 160, 40) \<rparr>
      else None)"

definition is_lower :: "char \<Rightarrow> bool" where
  "is_lower c = (let n = (of_char c :: nat) in (97 \<le> n \<and> n \<le> 122) \<or> (224 \<le> n \<and> n \<le> 254 \<and> n \<noteq> 247))"

definition upper_char :: "char \<Rightarrow> char" where
  "upper_char c = (if is_lower c then char_of ((of_char c :: nat) - 32) else c)"

definition toUpperCase :: "string \<Rightarrow> string" where
  "toUpperCase s = map upper_char s"

text \<open>
  One round of the loop, from the call count \<open>k0\<close>: ten draws, in the order of the
  source. A region that is undefined has no profile, and reading \<open>prof.temp\<close> throws.
\<close>

definition make_doc :: "seed_env \<Rightarrow> nat \<Rightarrow> (error + doc) \<times> nat" where
  "make_doc E k0 =
     (let (region_o, k1) = randomChoice E regions k0;
          (species_o, k2) = randomChoice E speciesPool k1;
          (status_o, k3) = randomChoice E statuses k2;
          (r, k4) = Math_random E k3;
          daysAgo = Math_floor (r * of_int monthsBack * 30);
          created = now_getTime E - daysAgo * 24 * 60 * 60 * 1000
      in case (case region_o of None \<Rightarrow> None | Some rg \<Rightarrow> map_option (Pair rg) (regionProfiles rg)) of
           None \<Rightarrow> (Inl TypeError, k4)
         | Some (rg, prof) \<Rightarrow>
             (let (t, k5) = randomInRange E (fst (temp prof)) (snd (temp prof)) k4;
                  temperature_v = of_int (Math_round (t * 10)) / 10;
                  (la, k6) = randomInRange E (fst (lat prof)) (snd (lat prof)) k5;
                  (lo, k7) = randomInRange E (fst (lon prof)) (snd (lon prof)) k6;
                  coords = [of_int (Math_round (la * 1000)) / 1000,
                            of_int (Math_round (lo * 1000)) / 1000];
                  (w, k8) = randomInRange E 2 9 k7;
                  wq = of_int (Math_round (w * 10)) / 10;
                  threat = pickThreatByWaterQuality wq;
                  (sc, k9) = randomInRange E 5 300 k8;
                  count = Math_floor sc;
                  (dp, k10) = randomInRange E 10 3500 k9;
                  depth_v = Math_floor dp;
                  loc = toUpperCase rg @ '' '' @ toFixed E (abs (coords ! 0)) 1 @ ''/''
                          @ toFixed E (abs (coords ! 1)) 1
              in (Inr \<lparr> createdAt = created, region = rg, species = species_o,
                        speciesCount = count, conservationStatus = status_o,
                        waterQuality = wq, threatLevel = threat, temperature = temperature_v,
                        depth = depth_v, coordinates = coords, location = loc \<rparr>, k10)))"

text \<open>The loop \<open>for (let i = 0; i < totalDocs; i++)\<close>, pushing one document a round.\<close>

function make_docs :: "seed_env \<Rightarrow> nat \<Rightarrow> nat \<Rightarrow> doc list \<Rightarrow> error + doc list" where
  "make_docs E i k docs =
     (if i < totalDocs then
        (case make_doc E k of
           (Inl e, k') \<Rightarrow> Inl e
         | (Inr d, k') \<Rightarrow> make_docs E (Suc i) k' (docs @ [d]))
      else Inr docs)"
  by pat_completeness auto
termination
  by (relation "measure (\<lambda>(E, i, k, docs). totalDocs - i)") auto

declare make_docs.simps [simp del]

definition index_specs :: "(string \<times> int) list list" where
  "index_specs =
     [[(''createdAt'', - 1)], [(''region'', 1), (''createdAt'', - 1)], [(''species'', 1)]]"

text \<open>The \<open>try\<close> block of \<open>main\<close>: the exception it throws, if any, and what it did.\<close>

definition main_try :: "seed_env \<Rightarrow> error option \<times> seed_event list" where
  "main_try E =
     (let tr0 = [Console_log ''[seed] Connecting to MongoDB...'', Connect] in
      case connect E of
        Inl e \<Rightarrow> (Some e, tr0)
      | Inr _ \<Rightarrow>
          (let tr1 = tr0 @ Console_log ''[seed] Creating helpful indexes (if not present)...''
                       # map CreateIndex index_specs in
           case createIndexes E of
             Inl e \<Rightarrow> (Some e, tr1)
           | Inr _ \<Rightarrow>
               (case make_docs E 0 0 [] of
                  Inl e \<Rightarrow> (Some e, tr1)
                | Inr docs \<Rightarrow>
                    (let tr2 = tr1 @
                           [Console_log (''[seed] Inserting '' @ nat_digits (length docs)
                              @ '' documents into species_observations...''),
                            InsertMany ''species_observations'' docs] in
                     case insertMany E docs of
                       Inl e \<Rightarrow> (Some e, tr2)
                     | Inr insertedCount \<Rightarrow>
                         (None, tr2 @
                           [Console_log (''[seed] Inserted '' @ nat_digits insertedCount @ '' documents.''),
                            Console_log ''[seed] Done. You can now refresh the dashboard.''])))))"

text \<open>
  \<open>main\<close>: the two early exits, the client, the \<open>try\<close> block, the \<open>catch\<close> that
  logs and sets the exit code, and the \<open>finally\<close> that closes the client.
\<close>

definition main :: "seed_env \<Rightarrow> outcome \<times> seed_event list" where
  "main E =
     (case getEnv E ''MONGODB_URI'' None of
        None \<Rightarrow> (Exited 1, [Console_error ''MONGODB_URI is required'' None])
      | Some uri \<Rightarrow>
          (case (case getDbNameFromUri uri of None \<Rightarrow> getEnv E ''MONGODB_DB'' None | Some d \<Rightarrow> Some d) of
             None \<Rightarrow>
               (Exited 1,
                [Console_error ''No database name found. Add the DB name in MONGODB_URI (recommended) or set MONGODB_DB.'' None])
           | Some dbName \<Rightarrow>
               (case new_MongoClient E uri of
                  Inl e \<Rightarrow> (Rejected e, [New_MongoClient uri])
                | Inr _ \<Rightarrow>
                    (let (thrown, tr) = main_try E;
                         tr' = New_MongoClient uri # tr
                           @ (case thrown of None \<Rightarrow> [] | Some e \<Rightarrow> [Console_error ''[seed] Failed:'' (Some e)])
                           @ [Close];
                         exitCode = (case thrown of None \<Rightarrow> None | Some e \<Rightarrow> Some 1)
                     in case close E of
                          Inl e \<Rightarrow> (Rejected e, tr')
                        | Inr _ \<Rightarrow> (Returned exitCode, tr')))))"

section \<open>Observations on responses, traces and documents\<close>

text \<open>The calls of \<open>bcrypt.compare\<close> and of \<open>sendContactEmail\<close> in a trace, with their arguments.\<close>

definition bcrypt_calls :: "event list \<Rightarrow> (jsval \<times> jsval) list" where
  "bcrypt_calls tr = [(p, h). Call_bcrypt_compare p h \<leftarrow> tr]"

definition sendContactEmail_calls :: "event list \<Rightarrow> jsval list" where
  "sendContactEmail_calls tr = [p. Call_sendContactEmail p \<leftarrow> tr]"

text \<open>
  A handler has caught the exception \<open>e\<close>: it answers 500 with its generic body, sets no
  cookie, and the last thing it did was to log \<open>e\<close>.
\<close>

definition login_caught :: "login_env \<Rightarrow> error \<Rightarrow> bool" where
  "login_caught E e =
     (fst (login_POST E)
        = \<lparr> status = 500, body = JObj [(''message'', JStr ''Internal server error'')], cookies = [] \<rparr>
      \<and> snd (login_POST E) \<noteq> []
      \<and> last (snd (login_POST E)) = Call_console_error ''Login error:'' e)"

definition contact_caught :: "contact_env \<Rightarrow> error \<Rightarrow> bool" where
  "contact_caught C e =
     (fst (contact_POST C)
        = \<lparr> status = 500, body = JObj [(''error'', JStr ''Internal server error. Please try again later.'')],
            cookies = [] \<rparr>
      \<and> snd (contact_POST C) \<noteq> []
      \<and> last (snd (contact_POST C)) = Call_console_error ''Contact form error:'' e)"

text \<open>The \<open>insertMany\<close> calls of the seed script, with the collection and the documents.\<close>

definition inserted :: "seed_event list \<Rightarrow> (string \<times> doc list) list" where
  "inserted tr = [(c, ds). InsertMany c ds \<leftarrow> tr]"

text \<open>The coordinates of a document are a latitude and a longitude within the profile of its region.\<close>

definition in_profile :: "doc \<Rightarrow> bool" where
  "in_profile d =
     (case regionProfiles (region d) of
        None \<Rightarrow> False
      | Some prof \<Rightarrow>
          length (coordinates d) = 2
          \<and> fst (lat prof) \<le> coordinates d ! 0 \<and> coordinates d ! 0 \<le> snd (lat prof)
          \<and> fst (lon prof) \<le> coordinates d ! 1 \<and> coordinates d ! 1 \<le> snd (lon prof))"

text \<open>What a seeded document looks like, for a script run at time \<open>now\<close> (in milliseconds).\<close>

definition seeded_doc :: "int \<Rightarrow> doc \<Rightarrow> bool" where
  "seeded_doc now d =
     (region d \<in> set regions
      \<and> (\<exists>s \<in> set speciesPool. species d = Some s)
      \<and> 5 \<le> speciesCount d \<and> speciesCount d < 300
      \<and> 2 \<le> waterQuality d \<and> waterQuality d \<le> 9
      \<and> in_profile d
      \<and> createdAt d \<le> now \<and> now - createdAt d \<le> 180 * (24 * 60 * 60 * 1000))"

section \<open>Example environments\<close>

text \<open>
  A user collection with one password account (alice), one account without a password
  (bob) and one address on which the lookup fails; a password comparison that accepts the
  hash \<open>hash:p\<close> for the password \<open>p\<close> and rejects arguments that are not strings; a
  signing function.
\<close>

definition alice :: user where
  "alice = \<lparr> user_id = ''64f0c0ffee'', user_email = JStr ''alice@example.com'',
     user_password = JStr ''hash:secret'', user_firstName = JStr ''Alice'',
     user_username = JUndefined, user_lastName = JUndefined, user_dob = JUndefined,
     user_avatar = JUndefined \<rparr>"

definition demo_users :: "string \<Rightarrow> error + user option" where
  "demo_users e =
     (if e = ''alice@example.com'' then Inr (Some alice)
      else if e = ''bob@example.com''
        then Inr (Some (alice \<lparr> user_email := JStr e, user_password := JUndefined \<rparr>))
      else if e = ''down@example.com'' then Inl (Exn ''connection lost'')
      else Inr None)"

definition demo_compare :: "jsval \<Rightarrow> jsval \<Rightarrow> error + bool" where
  "demo_compare p h =
     (case (p, h) of
        (JStr ps, JStr hs) \<Rightarrow> Inr (hs = ''hash:'' @ ps)
      | _ \<Rightarrow> Inl (Exn ''Illegal arguments''))"

definition demo_sign :: "jsval \<Rightarrow> string \<Rightarrow> string \<Rightarrow> error + string" where
  "demo_sign payload secret expiresIn =
     (case get_prop payload ''id'' of
        Inr (JStr i) \<Rightarrow> Inr (''jwt.'' @ i @ ''.'' @ secret)
      | _ \<Rightarrow> Inl (Exn ''bad payload''))"

text \<open>A number formatting for the examples: the digits of the integer part.\<close>

definition demo_Number_toString :: "real \<Rightarrow> string" where
  "demo_Number_toString x = int_digits \<lfloor>x\<rfloor>"

definition demo_login :: "jsval \<Rightarrow> login_env" where
  "demo_login b =
     \<lparr> Number_toString = demo_Number_toString,
       req_json = Inr b, getUserCollection = Inr demo_users, bcrypt_compare = demo_compare,
       jwt_sign = demo_sign, env_JWT_SECRET = None, env_NODE_ENV = Some ''production'' \<rparr>"

text \<open>An object with an own property \<open>toString\<close>, as the JSON text \<open>{"toString": 1}\<close> gives.\<close>

definition own_toString :: jsval where
  "own_toString = JObj [(''toString'', JNum 1)]"

definition credentials :: "jsval \<Rightarrow> jsval \<Rightarrow> jsval" where
  "credentials email password = JObj [(''email'', email), (''password'', password)]"

text \<open>
  A mailer that reports failure for one address, throws for another, returns null for a
  third and succeeds otherwise.
\<close>

definition demo_mailer :: "jsval \<Rightarrow> error + jsval" where
  "demo_mailer payload =
     (if get_prop payload ''email'' = Inr (JStr ''bounce@example.com'')
        then Inr (JObj [(''success'', JBool False), (''error'', JStr ''rejected'')])
      else if get_prop payload ''email'' = Inr (JStr ''down@example.com'')
        then Inl (Exn ''smtp timeout'')
      else if get_prop payload ''email'' = Inr (JStr ''void@example.com'')
        then Inr JNull
      else Inr (JObj [(''success'', JBool True)]))"

definition demo_contact :: "jsval \<Rightarrow> contact_env" where
  "demo_contact b =
     \<lparr> Number_toString = demo_Number_toString, request_json = Inr b,
       sendContactEmail = demo_mailer \<rparr>"

definition contact_form :: "jsval \<Rightarrow> jsval \<Rightarrow> jsval \<Rightarrow> jsval \<Rightarrow> jsval \<Rightarrow> jsval" where
  "contact_form firstName lastName email institution message = JObj
     [(''firstName'', firstName), (''lastName'', lastName), (''email'', email),
      (''institution'', institution), (''message'', message)]"

text \<open>
  A run of the seed script: the database named in the URI, every collaborator succeeding,
  and \<open>Math.random\<close> cycling through the eighths from 0 to 7/8. Its \<open>toFixed\<close> rounds
  the exact value, ties upwards.
\<close>

definition demo_toFixed :: "real \<Rightarrow> nat \<Rightarrow> string" where
  "demo_toFixed x digits =
     (let n = \<lfloor>\<bar>x\<bar> * 10 ^ digits + 1 / 2\<rfloor>
      in (if x < 0 \<and> 0 < n then ''-'' else [])
         @ int_digits (n div 10 ^ digits)
         @ (if digits = 0 then []
            else CHR ''.'' # drop 1 (nat_digits (nat (10 ^ digits + n mod 10 ^ digits)))))"

definition demo_seed :: seed_env where
  "demo_seed =
     \<lparr> process_env = (\<lambda>name. if name = ''MONGODB_URI''
                          then Some ''mongodb://localhost:27017/oceanova'' else None),
       now_getTime = 1700000000000,
       random = (\<lambda>k. of_nat (k mod 8) / 8),
       toFixed = demo_toFixed,
       new_MongoClient = (\<lambda>uri. Inr ()),
       connect = Inr (),
       createIndexes = Inr (),
       insertMany = (\<lambda>docs. Inr (length docs)),
       close = Inr () \<rparr>"

text \<open>The documents that run inserts, and the first of them.\<close>

definition demo_docs :: "doc list" where
  "demo_docs = (case make_docs demo_seed 0 0 [] of Inr docs \<Rightarrow> docs | Inl e \<Rightarrow> [])"

definition demo_doc :: doc where
  "demo_doc =
     \<lparr> createdAt = 1694211200000, region = ''pacific'', species = Some ''Giant Manta Ray'',
       speciesCount = 5, conservationStatus = Some ''Near Threatened'', waterQuality = 81 / 10,
       threatLevel = ''low'', temperature = 17, depth = 446, coordinates = [10, - 130],
       location = ''PACIFIC '' @ demo_toFixed 10 1 @ ''/'' @ demo_toFixed 130 1 \<rparr>"

section \<open>Properties of the route handlers\<close>

lemmas login_defs = login_POST_def login_try_def login_lookup_def login_verify_def Let_def

lemmas contact_defs = contact_POST_def contact_try_def contact_validate_def contact_send_def Let_def

subsection \<open>Normalising an email address\<close>

lemma is_space_lower_char: "is_space (lower_char c) = is_space c"
  by (auto simp add: is_space_def lower_char_def is_upper_def Let_def)

lemma lower_char_idem: "lower_char (lower_char c) = lower_char c"
  by (auto simp add: lower_char_def is_upper_def Let_def)

lemma trim_map:
  assumes "\<And>c. is_space (f c) = is_space c"
  shows "trim (map f s) = map f (trim s)"
proof -
  have "is_space \<circ> f = is_space"
    using assms by (simp add: fun_eq_iff)
  then show ?thesis
    by (simp add: trim_def dropWhile_map rev_map)
qed

lemma toLowerCase_trim: "trim (toLowerCase s) = toLowerCase (trim s)"
  by (simp add: toLowerCase_def trim_map is_space_lower_char)

lemma toLowerCase_idem: "toLowerCase (toLowerCase s) = toLowerCase s"
  by (simp add: toLowerCase_def lower_char_idem)

lemma dropWhile_snoc_keep: "\<not> P a \<Longrightarrow> \<exists>z. dropWhile P (xs @ [a]) = z @ [a]"
  by (induction xs) auto

lemma dropWhile_rev_dropWhile:
  assumes "y = [] \<or> \<not> P (hd y)"
  shows "dropWhile P (rev (dropWhile P (rev y))) = rev (dropWhile P (rev y))"
proof (cases y)
  case Nil
  then show ?thesis by simp
next
  case (Cons a t)
  with assms have na: "\<not> P a" by simp
  obtain z where "dropWhile P (rev t @ [a]) = z @ [a]"
    using dropWhile_snoc_keep [of P a "rev t"] na by blast
  with Cons na show ?thesis by simp
qed

lemma trim_trim: "trim (trim s) = trim s"
proof -
  have h: "dropWhile is_space s = [] \<or> \<not> is_space (hd (dropWhile is_space s))"
    using hd_dropWhile [of is_space s] by blast
  show ?thesis
    unfolding trim_def
    using dropWhile_rev_dropWhile [of "dropWhile is_space s" is_space] h by simp
qed

lemma normalize_idem: "toLowerCase (trim (toLowerCase (trim s))) = toLowerCase (trim s)"
  by (simp add: toLowerCase_trim toLowerCase_idem trim_trim)

subsection \<open>Login\<close>

text \<open>
  Claim C1. When the body of a login request holds a truthy email and a truthy password,
  the email is normalized to a string, the lookup of that string finds a user with a
  stored hash, \<open>bcrypt.compare\<close> accepts the password against that hash, and the
  signing of the payload with \<open>JWT_SECRET\<close> yields a token, the handler answers 200
  with the message ``Login successful'' and sets exactly one cookie: \<open>auth_token\<close>,
  HTTP-only, holding that token. The payload that was signed holds the id and the email
  of the user, and the secret is the environment variable \<open>JWT_SECRET\<close>, or
  \<open>supersecret\<close> when that is unset or empty.
\<close>

theorem login_correct_credentials:
  assumes "req_json E = Inr parsed"
    and "get_prop parsed ''email'' = Inr email"
    and "get_prop parsed ''password'' = Inr password"
    and "truthy email" and "truthy password"
    and "normalize_email (Number_toString E) email = Inr n"
    and "getUserCollection E = Inr users"
    and "users n = Inr (Some u)"
    and "truthy (user_password u)"
    and "bcrypt_compare E password (user_password u) = Inr True"
    and "jwt_sign E (token_payload u) (JWT_SECRET E) ''1h'' = Inr token"
  shows "status (fst (login_POST E)) = 200
    \<and> get_prop (body (fst (login_POST E))) ''message'' = Inr (JStr ''Login successful'')
    \<and> cookies (fst (login_POST E)) = [auth_cookie E token]
    \<and> cookie_name (auth_cookie E token) = ''auth_token''
    \<and> cookie_value (auth_cookie E token) = token
    \<and> httpOnly (auth_cookie E token)
    \<and> Call_jwt_sign (token_payload u) (JWT_SECRET E) ''1h'' \<in> set (snd (login_POST E))
    \<and> get_prop (token_payload u) ''id'' = Inr (JStr (user_id u))
    \<and> get_prop (token_payload u) ''email'' = Inr (user_email u)
    \<and> JWT_SECRET E = (case env_JWT_SECRET E of
                         None \<Rightarrow> ''supersecret''
                       | Some secret \<Rightarrow> if secret = [] then ''supersecret'' else secret)"
  using assms
  by (simp add: login_defs NextResponse_json_def cookies_set_def login_success_body_def
      auth_cookie_def token_payload_def JWT_SECRET_def)

theorem login_correct_credentials_witness:
  "req_json (demo_login (credentials (JStr '' Alice@Example.com '') (JStr ''secret'')))
     = Inr (credentials (JStr '' Alice@Example.com '') (JStr ''secret''))
   \<and> normalize_email demo_Number_toString (JStr '' Alice@Example.com '') = Inr ''alice@example.com''
   \<and> demo_users ''alice@example.com'' = Inr (Some alice)
   \<and> demo_compare (JStr ''secret'') (user_password alice) = Inr True
   \<and> status (fst (login_POST (demo_login (credentials (JStr '' Alice@Example.com '') (JStr ''secret''))))) = 200
   \<and> cookies (fst (login_POST (demo_login (credentials (JStr '' Alice@Example.com '') (JStr ''secret'')))))
       = [auth_cookie (demo_login (credentials (JStr '' Alice@Example.com '') (JStr ''secret'')))
            ''jwt.64f0c0ffee.supersecret'']"
proof -
  have t: "toLowerCase (trim '' Alice@Example.com '') = ''alice@example.com''"
    by code_simp
  have n: "normalize_email demo_Number_toString (JStr '' Alice@Example.com '') = Inr ''alice@example.com''"
    by (simp add: normalize_email_def t)
  show ?thesis
    using login_correct_credentials [where E = "demo_login (credentials (JStr '' Alice@Example.com '') (JStr ''secret''))"
      and parsed = "credentials (JStr '' Alice@Example.com '') (JStr ''secret'')"
      and email = "JStr '' Alice@Example.com ''" and password = "JStr ''secret''"
      and n = "''alice@example.com''" and users = demo_users and u = alice
      and token = "''jwt.64f0c0ffee.supersecret''"]
    by (simp add: n demo_login_def credentials_def demo_users_def alice_def demo_compare_def
        demo_sign_def token_payload_def JWT_SECRET_def)
qed

text \<open>
  Claim C2. When the body of a login request holds a truthy email and a truthy password,
  the email is normalized to a string, and either the lookup of that string finds no
  user, or it finds a user with a stored password against which \<open>bcrypt.compare\<close>
  rejects the given one, the handler answers 401 with the body
  \<open>{ message: "Invalid credentials" }\<close> and sets no cookie.
\<close>

theorem login_invalid_credentials:
  assumes "req_json E = Inr parsed"
    and "get_prop parsed ''email'' = Inr email"
    and "get_prop parsed ''password'' = Inr password"
    and "truthy email" and "truthy password"
    and "normalize_email (Number_toString E) email = Inr n"
    and "getUserCollection E = Inr users"
    and "users n = Inr None
       \<or> (\<exists>u. users n = Inr (Some u) \<and> truthy (user_password u)
             \<and> bcrypt_compare E password (user_password u) = Inr False)"
  shows "status (fst (login_POST E)) = 401
    \<and> body (fst (login_POST E)) = JObj [(''message'', JStr ''Invalid credentials'')]
    \<and> cookies (fst (login_POST E)) = []"
  using assms
  by (auto simp add: login_defs NextResponse_json_def msg_def)

theorem login_invalid_credentials_witness:
  "normalize_email demo_Number_toString (JStr ''carol@example.com'') = Inr ''carol@example.com''
   \<and> demo_users ''carol@example.com'' = Inr None
   \<and> status (fst (login_POST (demo_login (credentials (JStr ''carol@example.com'') (JStr ''secret''))))) = 401
   \<and> cookies (fst (login_POST (demo_login (credentials (JStr ''carol@example.com'') (JStr ''secret''))))) = []
   \<and> normalize_email demo_Number_toString (JStr ''alice@example.com'') = Inr ''alice@example.com''
   \<and> demo_compare (JStr ''guess'') (user_password alice) = Inr False
   \<and> status (fst (login_POST (demo_login (credentials (JStr ''alice@example.com'') (JStr ''guess''))))) = 401
   \<and> cookies (fst (login_POST (demo_login (credentials (JStr ''alice@example.com'') (JStr ''guess''))))) = []"
proof -
  have t: "toLowerCase (trim ''carol@example.com'') = ''carol@example.com''"
    "toLowerCase (trim ''alice@example.com'') = ''alice@example.com''"
    by code_simp+
  have n: "normalize_email demo_Number_toString (JStr ''carol@example.com'') = Inr ''carol@example.com''"
    "normalize_email demo_Number_toString (JStr ''alice@example.com'') = Inr ''alice@example.com''"
    by (simp_all add: normalize_email_def t)
  show ?thesis
    using login_invalid_credentials [where E = "demo_login (credentials (JStr ''carol@example.com'') (JStr ''secret''))"
      and parsed = "credentials (JStr ''carol@example.com'') (JStr ''secret'')"
      and email = "JStr ''carol@example.com''" and password = "JStr ''secret''"
      and n = "''carol@example.com''" and users = demo_users]
     login_invalid_credentials [where E = "demo_login (credentials (JStr ''alice@example.com'') (JStr ''guess''))"
      and parsed = "credentials (JStr ''alice@example.com'') (JStr ''guess'')"
      and email = "JStr ''alice@example.com''" and password = "JStr ''guess''"
      and n = "''alice@example.com''" and users = demo_users]
    by (simp add: n demo_login_def credentials_def demo_users_def alice_def demo_compare_def)
qed

text \<open>
  Claim C8. When the body of a login request holds a truthy email and a truthy password,
  the email is normalized to a string and the lookup of that string finds a user whose
  stored password is missing or falsy, the handler answers 400 (not 401) with the message
  that sends the user to Google Sign-In, and \<open>bcrypt.compare\<close> is never called.
\<close>

theorem login_google_account:
  assumes "req_json E = Inr parsed"
    and "get_prop parsed ''email'' = Inr email"
    and "get_prop parsed ''password'' = Inr password"
    and "truthy email" and "truthy password"
    and "normalize_email (Number_toString E) email = Inr n"
    and "getUserCollection E = Inr users"
    and "users n = Inr (Some u)"
    and "\<not> truthy (user_password u)"
  shows "status (fst (login_POST E)) = 400
    \<and> status (fst (login_POST E)) \<noteq> 401
    \<and> body (fst (login_POST E)) = JObj [(''message'',
         JStr ''This account uses Google Sign-In. Please sign in with Google or reset your password.'')]
    \<and> bcrypt_calls (snd (login_POST E)) = []"
  using assms
  by (simp add: login_defs NextResponse_json_def msg_def bcrypt_calls_def)

theorem login_google_account_witness:
  "normalize_email demo_Number_toString (JStr ''Bob@example.com'') = Inr ''bob@example.com''
   \<and> (\<exists>u. demo_users ''bob@example.com'' = Inr (Some u) \<and> \<not> truthy (user_password u))
   \<and> status (fst (login_POST (demo_login (credentials (JStr ''Bob@example.com'') (JStr ''secret''))))) = 400
   \<and> bcrypt_calls (snd (login_POST (demo_login (credentials (JStr ''Bob@example.com'') (JStr ''secret''))))) = []"
proof -
  have t: "toLowerCase (trim ''Bob@example.com'') = ''bob@example.com''"
    by code_simp
  have n: "normalize_email demo_Number_toString (JStr ''Bob@example.com'') = Inr ''bob@example.com''"
    by (simp add: normalize_email_def t)
  show ?thesis
    using login_google_account [where E = "demo_login (credentials (JStr ''Bob@example.com'') (JStr ''secret''))"
      and parsed = "credentials (JStr ''Bob@example.com'') (JStr ''secret'')"
      and email = "JStr ''Bob@example.com''" and password = "JStr ''secret''"
      and n = "''bob@example.com''" and users = demo_users
      and u = "alice \<lparr> user_email := JStr ''bob@example.com'', user_password := JUndefined \<rparr>"]
    by (simp add: n demo_login_def credentials_def demo_users_def alice_def)
qed

text \<open>
  Claim C4, amended. The handler tests the submitted email for emptiness before it
  normalizes it, so an email of white space only is looked up (as the empty address) while
  the empty email is rejected with 400. For every password, every environment and any two
  email strings that are both empty or both non-empty and that become equal after trimming
  and lower-casing, the handler's result (response and calls) is the same; and
  \<open>login(email, pw)\<close> equals \<open>login(lowercase(trim(email)), pw)\<close> whenever the
  email is empty or its normalized form is not.
\<close>

theorem login_normalized_email:
  assumes "get_prop p1 ''email'' = Inr (JStr e1)" and "get_prop p1 ''password'' = Inr password"
    and "get_prop p2 ''email'' = Inr (JStr e2)" and "get_prop p2 ''password'' = Inr password"
    and "get_prop p3 ''email'' = Inr (JStr (toLowerCase (trim e1)))"
    and "get_prop p3 ''password'' = Inr password"
  shows "(toLowerCase (trim e1) = toLowerCase (trim e2) \<and> (e1 = [] \<longleftrightarrow> e2 = [])
      \<longrightarrow> login_POST (E \<lparr> req_json := Inr p1 \<rparr>) = login_POST (E \<lparr> req_json := Inr p2 \<rparr>))
    \<and> ((e1 = [] \<longleftrightarrow> toLowerCase (trim e1) = [])
      \<longrightarrow> login_POST (E \<lparr> req_json := Inr p1 \<rparr>) = login_POST (E \<lparr> req_json := Inr p3 \<rparr>))"
proof -
  have eq: "login_POST (E \<lparr> req_json := Inr p \<rparr>) = login_POST (E \<lparr> req_json := Inr q \<rparr>)"
    if "get_prop p ''email'' = Inr (JStr a)" "get_prop p ''password'' = Inr password"
      "get_prop q ''email'' = Inr (JStr b)" "get_prop q ''password'' = Inr password"
      "toLowerCase (trim a) = toLowerCase (trim b)" "a = [] \<longleftrightarrow> b = []"
    for p q a b
    using that
    by (simp add: login_defs normalize_email_def JWT_SECRET_def auth_cookie_def
        split: sum.splits option.splits)
  show ?thesis
    using eq [of p1 e1 p2 e2] eq [of p1 e1 p3 "toLowerCase (trim e1)"] assms
    by (simp add: normalize_idem)
qed

theorem login_normalized_email_witness:
  "toLowerCase (trim '' Alice@Example.com '') = toLowerCase (trim ''ALICE@example.com'')
   \<and> login_POST (demo_login (credentials (JStr '' Alice@Example.com '') (JStr ''secret'')))
     = login_POST (demo_login (credentials (JStr ''ALICE@example.com'') (JStr ''secret'')))
   \<and> login_POST (demo_login (credentials (JStr '' Alice@Example.com '') (JStr ''secret'')))
     = login_POST (demo_login (credentials (JStr ''alice@example.com'') (JStr ''secret'')))
   \<and> status (fst (login_POST (demo_login (credentials (JStr ''alice@example.com'') (JStr ''secret''))))) = 200"
proof -
  have n: "toLowerCase (trim '' Alice@Example.com '') = ''alice@example.com''"
    "toLowerCase (trim ''ALICE@example.com'') = ''alice@example.com''"
    "toLowerCase (trim ''alice@example.com'') = ''alice@example.com''"
    by code_simp+
  have s: "status (fst (login_POST (demo_login (credentials (JStr ''alice@example.com'') (JStr ''secret''))))) = 200"
    by (simp add: n login_defs demo_login_def credentials_def normalize_email_def demo_users_def
        alice_def demo_compare_def demo_sign_def token_payload_def JWT_SECRET_def
        NextResponse_json_def cookies_set_def)
  have c: "toLowerCase (trim '' Alice@Example.com '') = toLowerCase (trim ''ALICE@example.com'')"
    by (simp add: n)
  note t = login_normalized_email [of "credentials (JStr '' Alice@Example.com '') (JStr ''secret'')"
        "'' Alice@Example.com ''" "JStr ''secret''"
        "credentials (JStr ''ALICE@example.com'') (JStr ''secret'')" "''ALICE@example.com''"
        "credentials (JStr ''alice@example.com'') (JStr ''secret'')"
        "demo_login JNull"]
  have a: "login_POST (demo_login (credentials (JStr '' Alice@Example.com '') (JStr ''secret'')))
       = login_POST (demo_login (credentials (JStr ''ALICE@example.com'') (JStr ''secret'')))"
    using t [THEN conjunct1] by (simp add: n demo_login_def credentials_def)
  have b: "login_POST (demo_login (credentials (JStr '' Alice@Example.com '') (JStr ''secret'')))
       = login_POST (demo_login (credentials (JStr ''alice@example.com'') (JStr ''secret'')))"
    using t [THEN conjunct2] by (simp add: n demo_login_def credentials_def)
  from c a b s show ?thesis by blast
qed

text \<open>
  The claim as stated fails: the email of two spaces and the empty email have the same
  normalized form, yet with a password and no user of the empty address the first is
  answered 401 and the second, which is its normalized form, 400.
\<close>

theorem login_normalized_email_counterexample:
  "toLowerCase (trim ''  '') = toLowerCase (trim [])
   \<and> status (fst (login_POST (demo_login (credentials (JStr ''  '') (JStr ''secret''))))) = 401
   \<and> status (fst (login_POST (demo_login
        (credentials (JStr (toLowerCase (trim ''  ''))) (JStr ''secret''))))) = 400"
proof -
  have n: "toLowerCase (trim ''  '') = []" by code_simp
  have m: "toLowerCase (trim []) = []" by code_simp
  show ?thesis
    by (simp add: n m login_defs demo_login_def credentials_def normalize_email_def demo_users_def
        NextResponse_json_def)
qed

subsection \<open>The pattern of the contact form\<close>

text \<open>The matcher decides the language of the expression.\<close>

lemma nullable_lang: "nullable r \<longleftrightarrow> [] \<in> lang r"
  by (induction r) (auto simp add: conc_def intro: star.intros)

lemma conc_Cons:
  "c # w \<in> conc A B \<longleftrightarrow>
     (\<exists>a b. w = a @ b \<and> c # a \<in> A \<and> b \<in> B) \<or> ([] \<in> A \<and> c # w \<in> B)"
  by (auto simp add: conc_def Cons_eq_append_conv)

lemma star_Cons_split:
  "x \<in> star A \<Longrightarrow> x = c # w \<Longrightarrow> \<exists>a b. w = a @ b \<and> c # a \<in> A \<and> b \<in> star A"
proof (induction rule: star.induct)
  case star_empty
  then show ?case by simp
next
  case (star_more a v)
  show ?case
  proof (cases a)
    case Nil
    with star_more show ?thesis by simp
  next
    case (Cons h t)
    with star_more.prems have "h = c" "w = t @ v" by simp_all
    with Cons star_more.hyps show ?thesis by blast
  qed
qed

lemma star_Cons:
  "c # w \<in> star A \<longleftrightarrow> (\<exists>a b. w = a @ b \<and> c # a \<in> A \<and> b \<in> star A)"
proof
  assume "c # w \<in> star A"
  then show "\<exists>a b. w = a @ b \<and> c # a \<in> A \<and> b \<in> star A"
    by (rule star_Cons_split) simp
next
  assume "\<exists>a b. w = a @ b \<and> c # a \<in> A \<and> b \<in> star A"
  then obtain a b where "w = a @ b" "c # a \<in> A" "b \<in> star A" by blast
  then show "c # w \<in> star A"
    using star_more [of "c # a" A b] by simp
qed

lemma deriv_lang: "w \<in> lang (deriv c r) \<longleftrightarrow> c # w \<in> lang r"
proof (induction r arbitrary: w)
  case (Seq r s)
  show ?case
    by (simp add: conc_Cons nullable_lang Seq) (auto simp add: conc_def Seq)
next
  case (Star r)
  show ?case
    by (simp add: star_Cons Star) (auto simp add: conc_def Star)
next
  case (Plus r)
  have "c # w \<in> conc (lang r) (star (lang r)) \<longleftrightarrow>
          (\<exists>a b. w = a @ b \<and> c # a \<in> lang r \<and> b \<in> star (lang r))"
    by (auto simp add: conc_Cons star_Cons)
  then show ?case
    by (simp add: Plus) (auto simp add: conc_def Plus)
qed (auto simp add: conc_def)

lemma rx_matches_lang: "rx_matches r s \<longleftrightarrow> s \<in> lang r"
  by (induction s arbitrary: r) (simp_all add: nullable_lang deriv_lang)

lemma star_plain:
  "w \<in> star {[c] | c. plain c} \<longleftrightarrow> (\<forall>c \<in> set w. plain c)"
proof
  assume "w \<in> star {[c] | c. plain c}"
  then show "\<forall>c \<in> set w. plain c"
    by (induction rule: star.induct) auto
next
  assume "\<forall>c \<in> set w. plain c"
  then show "w \<in> star {[c] | c. plain c}"
  proof (induction w)
    case Nil
    show ?case by (rule star_empty)
  next
    case (Cons h t)
    then have "[h] \<in> {[c] | c. plain c}" "t \<in> star {[c] | c. plain c}" by auto
    then have "[h] @ t \<in> star {[c] | c. plain c}" by (rule star_more)
    then show ?case by simp
  qed
qed

lemma lang_plain_plus:
  "w \<in> lang (Plus (NegCls [C_space, C_char CHR ''@''])) \<longleftrightarrow> w \<noteq> [] \<and> (\<forall>c \<in> set w. plain c)"
proof -
  define K where "K = {[c] | c. plain c}"
  have cls: "lang (NegCls [C_space, C_char CHR ''@'']) = K"
    by (auto simp add: plain_def K_def)
  have st: "\<And>v. v \<in> star K \<longleftrightarrow> (\<forall>c \<in> set v. plain c)"
    unfolding K_def by (rule star_plain)
  have "w \<in> conc K (star K) \<longleftrightarrow> w \<noteq> [] \<and> (\<forall>c \<in> set w. plain c)"
  proof
    assume "w \<in> conc K (star K)"
    then obtain a b where "w = a @ b" "a \<in> K" "b \<in> star K"
      by (auto simp add: conc_def)
    then show "w \<noteq> [] \<and> (\<forall>c \<in> set w. plain c)"
      using st [of b] by (auto simp add: K_def)
  next
    assume a: "w \<noteq> [] \<and> (\<forall>c \<in> set w. plain c)"
    then obtain h t where w: "w = h # t" by (cases w) auto
    with a have "[h] \<in> K" "t \<in> star K"
      using st [of t] by (auto simp add: K_def)
    then have "[h] @ t \<in> conc K (star K)"
      unfolding conc_def by blast
    with w show "w \<in> conc K (star K)" by simp
  qed
  then show ?thesis
    by (simp only: lang.simps(8) cls)
qed

lemma conc_chain:
  "s \<in> conc P (conc {[x]} (conc Q (conc {[y]} R))) \<longleftrightarrow>
     (\<exists>l d t. s = l @ [x] @ d @ [y] @ t \<and> l \<in> P \<and> d \<in> Q \<and> t \<in> R)"
  unfolding conc_def by fastforce

text \<open>
  The strings the pattern accepts: a local part, an at sign, and a domain in which some
  dot has a character before it and a character after it; no white space and no other at
  sign anywhere.
\<close>

lemma emailRegex_shape:
  "rx_matches emailRegex s \<longleftrightarrow>
     (\<exists>l d t. s = l @ ''@'' @ d @ ''.'' @ t \<and> l \<noteq> [] \<and> d \<noteq> [] \<and> t \<noteq> []
        \<and> (\<forall>c \<in> set l \<union> set d \<union> set t. plain c))"
proof -
  let ?P = "lang (Plus (NegCls [C_space, C_char CHR ''@'']))"
  have "lang emailRegex = conc ?P (conc {''@''} (conc ?P (conc {''.''} ?P)))"
    by (simp only: emailRegex_def lang.simps(6) lang.simps(3))
  then have "s \<in> lang emailRegex \<longleftrightarrow>
          (\<exists>l d t. s = l @ ''@'' @ d @ ''.'' @ t \<and> l \<in> ?P \<and> d \<in> ?P \<and> t \<in> ?P)"
    by (simp only: conc_chain)
  then show ?thesis
    unfolding rx_matches_lang lang_plain_plus by blast
qed

subsection \<open>Contact\<close>

text \<open>
  Claim C9, amended. The handler tests the email with \<open>emailRegex.test\<close>, which
  converts it to a string first; for an object with an own \<open>toString\<close> property the
  conversion throws and the request is answered 500. When the body of a contact request
  holds truthy \<open>firstName\<close>, \<open>lastName\<close>, \<open>email\<close> and \<open>message\<close>, and
  the email is converted to a string that does not match the pattern, the handler answers
  400 with the error ``Please enter a valid email address'' and \<open>sendContactEmail\<close>
  is never called.
\<close>

theorem contact_invalid_email:
  assumes "request_json C = Inr form"
    and "get_prop form ''firstName'' = Inr firstName"
    and "get_prop form ''lastName'' = Inr lastName"
    and "get_prop form ''email'' = Inr email"
    and "get_prop form ''institution'' = Inr institution"
    and "get_prop form ''message'' = Inr message"
    and "truthy firstName" and "truthy lastName" and "truthy email" and "truthy message"
    and "RegExp_test (Number_toString C) emailRegex email = Inr False"
  shows "status (fst (contact_POST C)) = 400
    \<and> body (fst (contact_POST C)) = JObj [(''error'', JStr ''Please enter a valid email address'')]
    \<and> sendContactEmail_calls (snd (contact_POST C)) = []"
  using assms
  by (simp add: contact_defs NextResponse_json_def err_def sendContactEmail_calls_def)

theorem contact_invalid_email_witness:
  "RegExp_test demo_Number_toString emailRegex (JStr ''ada@example'') = Inr False
   \<and> status (fst (contact_POST (demo_contact
        (contact_form (JStr ''Ada'') (JStr ''Lovelace'') (JStr ''ada@example'') JUndefined (JStr ''Hello''))))) = 400
   \<and> sendContactEmail_calls (snd (contact_POST (demo_contact
        (contact_form (JStr ''Ada'') (JStr ''Lovelace'') (JStr ''ada@example'') JUndefined (JStr ''Hello''))))) = []"
proof -
  have m: "\<not> rx_matches emailRegex ''ada@example''"
    by code_simp
  have r: "RegExp_test demo_Number_toString emailRegex (JStr ''ada@example'') = Inr False"
    by (simp only: RegExp_test_def js_String.simps sum.case m simp_thms)
  show ?thesis
    using r contact_invalid_email [of
      "demo_contact (contact_form (JStr ''Ada'') (JStr ''Lovelace'') (JStr ''ada@example'') JUndefined (JStr ''Hello''))"
      "contact_form (JStr ''Ada'') (JStr ''Lovelace'') (JStr ''ada@example'') JUndefined (JStr ''Hello'')"
      "JStr ''Ada''" "JStr ''Lovelace''" "JStr ''ada@example''" JUndefined "JStr ''Hello''"]
    by (simp add: demo_contact_def contact_form_def)
qed

text \<open>
  The claim as stated fails on an email that is the object \<open>{"toString": 1}\<close>: it is
  truthy and does not match the pattern, yet the test throws, the handler answers 500,
  not 400, and its error is not the one about the address.
\<close>

theorem contact_invalid_email_counterexample:
  "truthy own_toString
   \<and> RegExp_test demo_Number_toString emailRegex own_toString = Inl TypeError
   \<and> status (fst (contact_POST (demo_contact
        (contact_form (JStr ''Ada'') (JStr ''Lovelace'') own_toString JUndefined (JStr ''Hello''))))) = 500
   \<and> body (fst (contact_POST (demo_contact
        (contact_form (JStr ''Ada'') (JStr ''Lovelace'') own_toString JUndefined (JStr ''Hello'')))))
      = JObj [(''error'', JStr ''Internal server error. Please try again later.'')]"
  by (simp add: contact_defs demo_contact_def contact_form_def own_toString_def RegExp_test_def
      NextResponse_json_def err_def)

text \<open>
  Claim C5. When the body of a contact request holds truthy \<open>firstName\<close>,
  \<open>lastName\<close>, \<open>email\<close> and \<open>message\<close>, and the email matches the pattern, the
  handler calls \<open>sendContactEmail\<close> exactly once, with those four fields and the
  institution, which is ``Not specified'' when the body has none. When the result of the
  call reports success the handler answers 200 with \<open>success: true\<close>; when it reports
  failure the handler answers 500 with an error body.
\<close>

theorem contact_sends_once:
  assumes "request_json C = Inr form"
    and "get_prop form ''firstName'' = Inr firstName"
    and "get_prop form ''lastName'' = Inr lastName"
    and "get_prop form ''email'' = Inr email"
    and "get_prop form ''institution'' = Inr institution"
    and "get_prop form ''message'' = Inr message"
    and "truthy firstName" and "truthy lastName" and "truthy email" and "truthy message"
    and "RegExp_test (Number_toString C) emailRegex email = Inr True"
  shows "sendContactEmail_calls (snd (contact_POST C))
           = [contact_payload firstName lastName email institution message]
    \<and> contact_payload firstName lastName email institution message = JObj
         [(''firstName'', firstName), (''lastName'', lastName), (''email'', email),
          (''institution'', if truthy institution then institution else JStr ''Not specified''),
          (''message'', message)]
    \<and> (\<forall>result success.
          sendContactEmail C (contact_payload firstName lastName email institution message) = Inr result
          \<and> get_prop result ''success'' = Inr success \<longrightarrow>
          (if truthy success
           then status (fst (contact_POST C)) = 200
              \<and> get_prop (body (fst (contact_POST C))) ''success'' = Inr (JBool True)
           else status (fst (contact_POST C)) = 500
              \<and> body (fst (contact_POST C)) = JObj [(''error'', JStr ''Failed to send message. Please try again.'')]))"
  using assms
  by (auto simp add: contact_defs NextResponse_json_def err_def sendContactEmail_calls_def
      contact_payload_def js_or_def contact_success_body_def split: sum.splits)

theorem contact_sends_once_witness:
  "RegExp_test demo_Number_toString emailRegex (JStr ''ada@example.com'') = Inr True
   \<and> sendContactEmail_calls (snd (contact_POST (demo_contact
        (contact_form (JStr ''Ada'') (JStr ''Lovelace'') (JStr ''ada@example.com'') JUndefined (JStr ''Hello'')))))
      = [contact_form (JStr ''Ada'') (JStr ''Lovelace'') (JStr ''ada@example.com'') (JStr ''Not specified'') (JStr ''Hello'')]
   \<and> status (fst (contact_POST (demo_contact
        (contact_form (JStr ''Ada'') (JStr ''Lovelace'') (JStr ''ada@example.com'') JUndefined (JStr ''Hello''))))) = 200
   \<and> RegExp_test demo_Number_toString emailRegex (JStr ''bounce@example.com'') = Inr True
   \<and> status (fst (contact_POST (demo_contact
        (contact_form (JStr ''Ada'') (JStr ''Lovelace'') (JStr ''bounce@example.com'') (JStr ''MIT'') (JStr ''Hello''))))) = 500"
proof -
  have m: "rx_matches emailRegex ''ada@example.com''" "rx_matches emailRegex ''bounce@example.com''"
    by code_simp+
  have r: "RegExp_test demo_Number_toString emailRegex (JStr ''ada@example.com'') = Inr True"
    "RegExp_test demo_Number_toString emailRegex (JStr ''bounce@example.com'') = Inr True"
    by (simp_all only: RegExp_test_def js_String.simps sum.case m simp_thms)
  note a = contact_sends_once [of
      "demo_contact (contact_form (JStr ''Ada'') (JStr ''Lovelace'') (JStr ''ada@example.com'') JUndefined (JStr ''Hello''))"
      "contact_form (JStr ''Ada'') (JStr ''Lovelace'') (JStr ''ada@example.com'') JUndefined (JStr ''Hello'')"
      "JStr ''Ada''" "JStr ''Lovelace''" "JStr ''ada@example.com''" JUndefined "JStr ''Hello''"]
  note b = contact_sends_once [of
      "demo_contact (contact_form (JStr ''Ada'') (JStr ''Lovelace'') (JStr ''bounce@example.com'') (JStr ''MIT'') (JStr ''Hello''))"
      "contact_form (JStr ''Ada'') (JStr ''Lovelace'') (JStr ''bounce@example.com'') (JStr ''MIT'') (JStr ''Hello'')"
      "JStr ''Ada''" "JStr ''Lovelace''" "JStr ''bounce@example.com''" "JStr ''MIT''" "JStr ''Hello''"]
  show ?thesis
    using a b r
    by (simp add: demo_contact_def contact_form_def contact_payload_def js_or_def demo_mailer_def)
qed

subsection \<open>Both handlers\<close>

text \<open>
  Claim C3, amended. The destructuring of a body that is \<open>null\<close> throws, and the
  handlers answer 500 there. For every request whose body is parsed to a value other than
  \<open>null\<close>: the login handler answers 400 whenever \<open>email\<close> or \<open>password\<close> is
  absent or falsy; the contact handler answers 400 whenever one of \<open>firstName\<close>,
  \<open>lastName\<close>, \<open>email\<close>, \<open>message\<close> is absent or falsy; and with these four
  truthy and the email matching the pattern, a body without \<open>institution\<close> is never
  answered 400.
\<close>

theorem missing_fields_400:
  "(req_json E = Inr parsed \<and> get_prop parsed ''email'' = Inr email
      \<and> get_prop parsed ''password'' = Inr password
      \<and> (\<not> truthy email \<or> \<not> truthy password)
    \<longrightarrow> status (fst (login_POST E)) = 400)
   \<and> (request_json C = Inr form \<and> get_prop form ''firstName'' = Inr firstName
      \<and> get_prop form ''lastName'' = Inr lastName \<and> get_prop form ''email'' = Inr email'
      \<and> get_prop form ''institution'' = Inr institution \<and> get_prop form ''message'' = Inr message
      \<and> (\<not> truthy firstName \<or> \<not> truthy lastName \<or> \<not> truthy email' \<or> \<not> truthy message)
    \<longrightarrow> status (fst (contact_POST C)) = 400)
   \<and> (request_json C = Inr form \<and> get_prop form ''firstName'' = Inr firstName
      \<and> get_prop form ''lastName'' = Inr lastName \<and> get_prop form ''email'' = Inr email'
      \<and> get_prop form ''institution'' = Inr JUndefined \<and> get_prop form ''message'' = Inr message
      \<and> truthy firstName \<and> truthy lastName \<and> truthy email' \<and> truthy message
      \<and> RegExp_test (Number_toString C) emailRegex email' = Inr True
    \<longrightarrow> status (fst (contact_POST C)) \<noteq> 400)"
  by (auto simp add: login_defs contact_defs NextResponse_json_def split: sum.splits if_splits)

theorem missing_fields_400_witness:
  "status (fst (login_POST (demo_login (JObj [(''email'', JStr ''alice@example.com'')])))) = 400
   \<and> status (fst (login_POST (demo_login (credentials (JStr []) (JStr ''secret''))))) = 400
   \<and> status (fst (contact_POST (demo_contact
        (JObj [(''firstName'', JStr ''Ada''), (''lastName'', JStr ''Lovelace''), (''message'', JStr ''Hello'')])))) = 400
   \<and> RegExp_test demo_Number_toString emailRegex (JStr ''ada@example.com'') = Inr True
   \<and> status (fst (contact_POST (demo_contact
        (JObj [(''firstName'', JStr ''Ada''), (''lastName'', JStr ''Lovelace''),
               (''email'', JStr ''ada@example.com''), (''message'', JStr ''Hello'')])))) \<noteq> 400"
proof -
  have m: "rx_matches emailRegex ''ada@example.com''"
    by code_simp
  have r: "RegExp_test demo_Number_toString emailRegex (JStr ''ada@example.com'') = Inr True"
    by (simp only: RegExp_test_def js_String.simps sum.case m simp_thms)
  note a = missing_fields_400 [of "demo_login (JObj [(''email'', JStr ''alice@example.com'')])"
      "JObj [(''email'', JStr ''alice@example.com'')]" "JStr ''alice@example.com''" JUndefined
      "demo_contact (JObj [(''firstName'', JStr ''Ada''), (''lastName'', JStr ''Lovelace''), (''message'', JStr ''Hello'')])"
      "JObj [(''firstName'', JStr ''Ada''), (''lastName'', JStr ''Lovelace''), (''message'', JStr ''Hello'')]"
      "JStr ''Ada''" "JStr ''Lovelace''" JUndefined JUndefined "JStr ''Hello''"]
  note b = missing_fields_400 [of "demo_login (credentials (JStr []) (JStr ''secret''))"
      "credentials (JStr []) (JStr ''secret'')" "JStr []" "JStr ''secret''"
      "demo_contact (JObj [(''firstName'', JStr ''Ada''), (''lastName'', JStr ''Lovelace''),
               (''email'', JStr ''ada@example.com''), (''message'', JStr ''Hello'')])"
      "JObj [(''firstName'', JStr ''Ada''), (''lastName'', JStr ''Lovelace''),
               (''email'', JStr ''ada@example.com''), (''message'', JStr ''Hello'')]"
      "JStr ''Ada''" "JStr ''Lovelace''" "JStr ''ada@example.com''" JUndefined "JStr ''Hello''"]
  show ?thesis
    using a b r by (simp add: demo_login_def demo_contact_def credentials_def)
qed

text \<open>
  The claim as stated fails on the body \<open>null\<close>: it has no email, no password and no
  name, and both handlers answer 500.
\<close>

theorem missing_fields_counterexample:
  "req_json (demo_login JNull) = Inr JNull
   \<and> status (fst (login_POST (demo_login JNull))) = 500
   \<and> request_json (demo_contact JNull) = Inr JNull
   \<and> status (fst (contact_POST (demo_contact JNull))) = 500"
  by (simp add: login_defs contact_defs demo_login_def demo_contact_def NextResponse_json_def)

text \<open>
  Claim C7. In both handlers an exception is caught, logged and answered with 500 and a
  generic JSON error body. In the login handler: when the parsing of the body throws,
  and, for a body with truthy email and password, when the conversion of the email to a
  string throws, or, after it, when the access to the user collection, the lookup,
  \<open>bcrypt.compare\<close> or \<open>jwt.sign\<close> throws. In the contact handler: when the
  parsing of the body throws, and, for a body with the four required fields truthy, when
  the test of the email throws, or, for an email that matches, when
  \<open>sendContactEmail\<close> throws or returns a result whose \<open>success\<close> cannot be read.
  The TypeError of destructuring a body that is \<open>null\<close> is caught in the same way.
\<close>

theorem handlers_catch_exceptions:
  "(req_json E = Inl e \<longrightarrow> login_caught E e)
   \<and> (req_json E = Inr parsed \<and> get_prop parsed ''email'' = Inr email
        \<and> get_prop parsed ''password'' = Inr password \<and> truthy email \<and> truthy password
      \<longrightarrow> (normalize_email (Number_toString E) email = Inl e \<longrightarrow> login_caught E e)
        \<and> (normalize_email (Number_toString E) email = Inr n
            \<longrightarrow> (getUserCollection E = Inl e \<longrightarrow> login_caught E e)
              \<and> (getUserCollection E = Inr users \<and> users n = Inl e \<longrightarrow> login_caught E e)
              \<and> (getUserCollection E = Inr users \<and> users n = Inr (Some u)
                  \<and> truthy (user_password u)
                  \<and> bcrypt_compare E password (user_password u) = Inl e
                  \<longrightarrow> login_caught E e)
              \<and> (getUserCollection E = Inr users \<and> users n = Inr (Some u)
                  \<and> truthy (user_password u)
                  \<and> bcrypt_compare E password (user_password u) = Inr True
                  \<and> jwt_sign E (token_payload u) (JWT_SECRET E) ''1h'' = Inl e
                  \<longrightarrow> login_caught E e)))
   \<and> (request_json C = Inl e \<longrightarrow> contact_caught C e)
   \<and> (request_json C = Inr form \<and> get_prop form ''firstName'' = Inr firstName
        \<and> get_prop form ''lastName'' = Inr lastName \<and> get_prop form ''email'' = Inr email'
        \<and> get_prop form ''institution'' = Inr institution \<and> get_prop form ''message'' = Inr message
        \<and> truthy firstName \<and> truthy lastName \<and> truthy email' \<and> truthy message
      \<longrightarrow> (RegExp_test (Number_toString C) emailRegex email' = Inl e \<longrightarrow> contact_caught C e)
        \<and> (RegExp_test (Number_toString C) emailRegex email' = Inr True
            \<longrightarrow> (sendContactEmail C (contact_payload firstName lastName email' institution message) = Inl e
                  \<longrightarrow> contact_caught C e)
              \<and> (sendContactEmail C (contact_payload firstName lastName email' institution message)
                    = Inr result
                  \<and> get_prop result ''success'' = Inl e
                  \<longrightarrow> contact_caught C e)))
   \<and> (req_json E = Inr JNull \<longrightarrow> login_caught E TypeError)
   \<and> (request_json C = Inr JNull \<longrightarrow> contact_caught C TypeError)"
  by (simp add: login_caught_def contact_caught_def login_defs contact_defs NextResponse_json_def
      msg_def err_def)

theorem handlers_catch_exceptions_witness:
  "login_caught ((demo_login JNull) \<lparr> req_json := Inl (Exn ''Unexpected end of JSON input'') \<rparr>)
     (Exn ''Unexpected end of JSON input'')
   \<and> login_caught (demo_login (credentials own_toString (JStr ''secret''))) TypeError
   \<and> login_caught ((demo_login (credentials (JStr ''alice@example.com'') (JStr ''secret'')))
        \<lparr> getUserCollection := Inl (Exn ''ECONNREFUSED'') \<rparr>) (Exn ''ECONNREFUSED'')
   \<and> login_caught (demo_login (credentials (JStr ''down@example.com'') (JStr ''secret'')))
        (Exn ''connection lost'')
   \<and> login_caught (demo_login (credentials (JStr ''alice@example.com'') (JNum 5)))
        (Exn ''Illegal arguments'')
   \<and> login_caught ((demo_login (credentials (JStr ''alice@example.com'') (JStr ''secret'')))
        \<lparr> jwt_sign := \<lambda>payload secret expiresIn. Inl (Exn ''secretOrPrivateKey'') \<rparr>)
        (Exn ''secretOrPrivateKey'')
   \<and> contact_caught ((demo_contact JNull) \<lparr> request_json := Inl (Exn ''Unexpected end of JSON input'') \<rparr>)
        (Exn ''Unexpected end of JSON input'')
   \<and> contact_caught (demo_contact
        (contact_form (JStr ''Ada'') (JStr ''Lovelace'') own_toString JUndefined (JStr ''Hello'')))
        TypeError
   \<and> contact_caught (demo_contact
        (contact_form (JStr ''Ada'') (JStr ''Lovelace'') (JStr ''down@example.com'') JUndefined (JStr ''Hello'')))
        (Exn ''smtp timeout'')
   \<and> contact_caught (demo_contact
        (contact_form (JStr ''Ada'') (JStr ''Lovelace'') (JStr ''void@example.com'') JUndefined (JStr ''Hello'')))
        TypeError
   \<and> login_caught (demo_login JNull) TypeError
   \<and> contact_caught (demo_contact JNull) TypeError"
proof -
  have t: "toLowerCase (trim ''alice@example.com'') = ''alice@example.com''"
    "toLowerCase (trim ''down@example.com'') = ''down@example.com''"
    by code_simp+
  have n: "normalize_email demo_Number_toString (JStr ''alice@example.com'') = Inr ''alice@example.com''"
    "normalize_email demo_Number_toString (JStr ''down@example.com'') = Inr ''down@example.com''"
    "normalize_email demo_Number_toString own_toString = Inl TypeError"
    by (simp_all add: normalize_email_def t own_toString_def)
  have m: "rx_matches emailRegex ''down@example.com''" "rx_matches emailRegex ''void@example.com''"
    by code_simp+
  have r: "RegExp_test demo_Number_toString emailRegex (JStr ''down@example.com'') = Inr True"
    "RegExp_test demo_Number_toString emailRegex (JStr ''void@example.com'') = Inr True"
    by (simp_all only: RegExp_test_def js_String.simps sum.case m simp_thms)
  have ro: "RegExp_test demo_Number_toString emailRegex own_toString = Inl TypeError"
    by (simp add: RegExp_test_def own_toString_def)
  have 1: "login_caught ((demo_login JNull) \<lparr> req_json := Inl (Exn ''Unexpected end of JSON input'') \<rparr>)
     (Exn ''Unexpected end of JSON input'')"
    using handlers_catch_exceptions [where E = "(demo_login JNull) \<lparr> req_json := Inl (Exn ''Unexpected end of JSON input'') \<rparr>"
        and e = "Exn ''Unexpected end of JSON input''", THEN conjunct1]
    by simp
  have 2: "login_caught (demo_login (credentials own_toString (JStr ''secret''))) TypeError"
    using handlers_catch_exceptions [where E = "demo_login (credentials own_toString (JStr ''secret''))"
        and e = TypeError and parsed = "credentials own_toString (JStr ''secret'')"
        and email = own_toString and password = "JStr ''secret''",
        THEN conjunct2, THEN conjunct1]
    by (simp add: n demo_login_def credentials_def) (simp add: own_toString_def)
  have 3: "login_caught ((demo_login (credentials (JStr ''alice@example.com'') (JStr ''secret'')))
        \<lparr> getUserCollection := Inl (Exn ''ECONNREFUSED'') \<rparr>) (Exn ''ECONNREFUSED'')"
    using handlers_catch_exceptions [where E = "(demo_login (credentials (JStr ''alice@example.com'') (JStr ''secret'')))
        \<lparr> getUserCollection := Inl (Exn ''ECONNREFUSED'') \<rparr>" and e = "Exn ''ECONNREFUSED''"
        and parsed = "credentials (JStr ''alice@example.com'') (JStr ''secret'')"
        and email = "JStr ''alice@example.com''" and password = "JStr ''secret''"
        and n = "''alice@example.com''" and users = demo_users and u = alice,
        THEN conjunct2, THEN conjunct1]
    by (simp add: n demo_login_def credentials_def)
  have 4: "login_caught (demo_login (credentials (JStr ''down@example.com'') (JStr ''secret'')))
        (Exn ''connection lost'')"
    using handlers_catch_exceptions [where E = "demo_login (credentials (JStr ''down@example.com'') (JStr ''secret''))"
        and e = "Exn ''connection lost''"
        and parsed = "credentials (JStr ''down@example.com'') (JStr ''secret'')"
        and email = "JStr ''down@example.com''" and password = "JStr ''secret''"
        and n = "''down@example.com''" and users = demo_users and u = alice,
        THEN conjunct2, THEN conjunct1]
    by (simp add: n demo_login_def credentials_def demo_users_def)
  have 5: "login_caught (demo_login (credentials (JStr ''alice@example.com'') (JNum 5)))
        (Exn ''Illegal arguments'')"
    using handlers_catch_exceptions [where E = "demo_login (credentials (JStr ''alice@example.com'') (JNum 5))"
        and e = "Exn ''Illegal arguments''"
        and parsed = "credentials (JStr ''alice@example.com'') (JNum 5)"
        and email = "JStr ''alice@example.com''" and password = "JNum 5"
        and n = "''alice@example.com''" and users = demo_users and u = alice,
        THEN conjunct2, THEN conjunct1]
    by (simp add: n demo_login_def credentials_def demo_users_def alice_def demo_compare_def)
  have 6: "login_caught ((demo_login (credentials (JStr ''alice@example.com'') (JStr ''secret'')))
        \<lparr> jwt_sign := \<lambda>payload secret expiresIn. Inl (Exn ''secretOrPrivateKey'') \<rparr>)
        (Exn ''secretOrPrivateKey'')"
    using handlers_catch_exceptions [where E = "(demo_login (credentials (JStr ''alice@example.com'') (JStr ''secret'')))
        \<lparr> jwt_sign := \<lambda>payload secret expiresIn. Inl (Exn ''secretOrPrivateKey'') \<rparr>"
        and e = "Exn ''secretOrPrivateKey''"
        and parsed = "credentials (JStr ''alice@example.com'') (JStr ''secret'')"
        and email = "JStr ''alice@example.com''" and password = "JStr ''secret''"
        and n = "''alice@example.com''" and users = demo_users and u = alice,
        THEN conjunct2, THEN conjunct1]
    by (simp add: n demo_login_def credentials_def demo_users_def alice_def demo_compare_def)
  have 7: "contact_caught ((demo_contact JNull) \<lparr> request_json := Inl (Exn ''Unexpected end of JSON input'') \<rparr>)
        (Exn ''Unexpected end of JSON input'')"
    using handlers_catch_exceptions [where e = "Exn ''Unexpected end of JSON input''"
        and C = "(demo_contact JNull) \<lparr> request_json := Inl (Exn ''Unexpected end of JSON input'') \<rparr>",
        THEN conjunct2, THEN conjunct2, THEN conjunct1]
    by simp
  have 8: "contact_caught (demo_contact
        (contact_form (JStr ''Ada'') (JStr ''Lovelace'') own_toString JUndefined (JStr ''Hello'')))
        TypeError"
    using handlers_catch_exceptions [where e = TypeError
        and C = "demo_contact (contact_form (JStr ''Ada'') (JStr ''Lovelace'') own_toString JUndefined (JStr ''Hello''))"
        and form = "contact_form (JStr ''Ada'') (JStr ''Lovelace'') own_toString JUndefined (JStr ''Hello'')"
        and firstName = "JStr ''Ada''" and lastName = "JStr ''Lovelace''" and ?email' = own_toString
        and institution = JUndefined and message = "JStr ''Hello''",
        THEN conjunct2, THEN conjunct2, THEN conjunct2, THEN conjunct1]
    by (simp add: ro demo_contact_def contact_form_def) (simp add: own_toString_def)
  have 9: "contact_caught (demo_contact
        (contact_form (JStr ''Ada'') (JStr ''Lovelace'') (JStr ''down@example.com'') JUndefined (JStr ''Hello'')))
        (Exn ''smtp timeout'')"
    using handlers_catch_exceptions [where e = "Exn ''smtp timeout''"
        and C = "demo_contact (contact_form (JStr ''Ada'') (JStr ''Lovelace'') (JStr ''down@example.com'') JUndefined (JStr ''Hello''))"
        and form = "contact_form (JStr ''Ada'') (JStr ''Lovelace'') (JStr ''down@example.com'') JUndefined (JStr ''Hello'')"
        and firstName = "JStr ''Ada''" and lastName = "JStr ''Lovelace''" and ?email' = "JStr ''down@example.com''"
        and institution = JUndefined and message = "JStr ''Hello''" and result = JNull,
        THEN conjunct2, THEN conjunct2, THEN conjunct2, THEN conjunct1]
    by (simp add: r demo_contact_def contact_form_def demo_mailer_def contact_payload_def js_or_def)
  have 10: "contact_caught (demo_contact
        (contact_form (JStr ''Ada'') (JStr ''Lovelace'') (JStr ''void@example.com'') JUndefined (JStr ''Hello'')))
        TypeError"
    using handlers_catch_exceptions [where e = TypeError
        and C = "demo_contact (contact_form (JStr ''Ada'') (JStr ''Lovelace'') (JStr ''void@example.com'') JUndefined (JStr ''Hello''))"
        and form = "contact_form (JStr ''Ada'') (JStr ''Lovelace'') (JStr ''void@example.com'') JUndefined (JStr ''Hello'')"
        and firstName = "JStr ''Ada''" and lastName = "JStr ''Lovelace''" and ?email' = "JStr ''void@example.com''"
        and institution = JUndefined and message = "JStr ''Hello''" and result = JNull,
        THEN conjunct2, THEN conjunct2, THEN conjunct2, THEN conjunct1]
    by (simp add: r demo_contact_def contact_form_def demo_mailer_def contact_payload_def js_or_def)
  have 11: "login_caught (demo_login JNull) TypeError"
    using handlers_catch_exceptions [where E = "demo_login JNull" and e = TypeError,
        THEN conjunct2, THEN conjunct2, THEN conjunct2, THEN conjunct2, THEN conjunct1]
    by (simp add: demo_login_def)
  have 12: "contact_caught (demo_contact JNull) TypeError"
    using handlers_catch_exceptions [where e = TypeError and C = "demo_contact JNull",
        THEN conjunct2, THEN conjunct2, THEN conjunct2, THEN conjunct2, THEN conjunct2]
    by (simp add: demo_contact_def)
  from 1 2 3 4 5 6 7 8 9 10 11 12 show ?thesis by blast
qed

section \<open>Properties of the seed script\<close>

subsection \<open>Draws and rounding\<close>

lemma randomChoice_in:
  assumes "0 \<le> random E k" and "random E k < 1" and "list \<noteq> []"
  shows "\<exists>x \<in> set list. randomChoice E list k = (Some x, Suc k)"
proof -
  let ?n = "length list"
  let ?i = "\<lfloor>random E k * of_nat ?n\<rfloor>"
  have n: "0 < ?n" using assms(3) by simp
  have lo: "0 \<le> ?i" using assms(1) by simp
  have "random E k * of_nat ?n < of_nat ?n"
    using assms(2) n by simp
  then have hi: "?i < int ?n"
    by (simp add: floor_less_iff)
  from lo hi have "nat ?i < ?n" by linarith
  then have "list ! nat ?i \<in> set list" by simp
  with lo hi show ?thesis
    by (simp add: randomChoice_def Math_random_def Math_floor_def)
qed

lemma range_bounds:
  fixes r :: real
  assumes "0 \<le> r" and "r < 1" and "lo \<le> hi"
  shows "lo \<le> r * (hi - lo) + lo \<and> r * (hi - lo) + lo \<le> hi"
proof -
  have a: "0 \<le> r * (hi - lo)" using assms by simp
  have "r * (hi - lo) \<le> 1 * (hi - lo)"
    using assms by (intro mult_right_mono) auto
  with a show ?thesis by simp
qed

lemma round_scaled:
  fixes v :: real and m a b :: int
  assumes "0 < m" and "of_int a \<le> v" and "v \<le> of_int b"
  shows "(of_int a :: real) \<le> of_int (Math_round (v * of_int m)) / of_int m
       \<and> of_int (Math_round (v * of_int m)) / of_int m \<le> (of_int b :: real)"
proof -
  have m: "(0::real) < of_int m" using assms(1) by simp
  have "(of_int (a * m) :: real) \<le> v * of_int m"
    using assms(2) m by simp
  then have lo: "a * m \<le> Math_round (v * of_int m)"
    unfolding Math_round_def by (simp add: le_floor_iff)
  have "v * of_int m \<le> (of_int (b * m) :: real)"
    using assms(3) m by simp
  then have "v * of_int m + 1 / 2 < of_int (b * m + 1)"
    by simp
  then have "Math_round (v * of_int m) < b * m + 1"
    unfolding Math_round_def by (simp only: floor_less_iff)
  then have hi: "Math_round (v * of_int m) \<le> b * m" by simp
  from lo have "(of_int (a * m) :: real) \<le> of_int (Math_round (v * of_int m))"
    by (simp only: of_int_le_iff)
  moreover from hi have "(of_int (Math_round (v * of_int m)) :: real) \<le> of_int (b * m)"
    by (simp only: of_int_le_iff)
  ultimately show ?thesis
    using m by (simp add: pos_le_divide_eq pos_divide_le_eq)
qed

lemma coordinate_bounds:
  fixes r lo hi :: real
  assumes "0 \<le> r" and "r < 1" and "lo \<in> \<int>" and "hi \<in> \<int>" and "lo \<le> hi"
  shows "lo \<le> of_int (Math_round ((r * (hi - lo) + lo) * 1000)) / 1000
       \<and> of_int (Math_round ((r * (hi - lo) + lo) * 1000)) / 1000 \<le> hi"
proof -
  from assms(3) obtain a where a: "lo = of_int a" by (rule Ints_cases)
  from assms(4) obtain b where b: "hi = of_int b" by (rule Ints_cases)
  have v: "lo \<le> r * (hi - lo) + lo \<and> r * (hi - lo) + lo \<le> hi"
    using assms(1,2,5) by (rule range_bounds)
  show ?thesis
    using round_scaled [of 1000 a "r * (hi - lo) + lo" b] v a b by simp
qed

lemma regionProfiles_regions:
  assumes "rg \<in> set regions"
  shows "\<exists>prof. regionProfiles rg = Some prof
    \<and> fst (lat prof) \<in> \<int> \<and> snd (lat prof) \<in> \<int> \<and> fst (lat prof) \<le> snd (lat prof)
    \<and> fst (lon prof) \<in> \<int> \<and> snd (lon prof) \<in> \<int> \<and> fst (lon prof) \<le> snd (lon prof)"
  using assms by (auto simp add: regions_def regionProfiles_def)

subsection \<open>One document\<close>

lemma make_doc_ok:
  assumes rand: "\<forall>k. 0 \<le> random E k \<and> random E k < 1"
  shows "\<exists>d. make_doc E k = (Inr d, k + 10) \<and> seeded_doc (now_getTime E) d"
proof -
  obtain rg where rg: "rg \<in> set regions" "randomChoice E regions k = (Some rg, Suc k)"
    using randomChoice_in [of E k regions] rand by (auto simp add: regions_def)
  obtain sp where sp: "sp \<in> set speciesPool" "randomChoice E speciesPool (Suc k) = (Some sp, Suc (Suc k))"
    using randomChoice_in [of E "Suc k" speciesPool] rand by (auto simp add: speciesPool_def)
  obtain st where st: "randomChoice E statuses (Suc (Suc k)) = (Some st, Suc (Suc (Suc k)))"
    using randomChoice_in [of E "Suc (Suc k)" statuses] rand by (auto simp add: statuses_def)
  obtain prof where prof: "regionProfiles rg = Some prof"
    and la: "fst (lat prof) \<in> \<int>" "snd (lat prof) \<in> \<int>" "fst (lat prof) \<le> snd (lat prof)"
    and lo: "fst (lon prof) \<in> \<int>" "snd (lon prof) \<in> \<int>" "fst (lon prof) \<le> snd (lon prof)"
    using regionProfiles_regions [OF rg(1)] by blast
  let ?r3 = "random E (k + 3)"
  let ?daysAgo = "Math_floor (?r3 * of_int monthsBack * 30)"
  have r3: "0 \<le> ?r3" "?r3 < 1" using rand by simp_all
  have days: "0 \<le> ?daysAgo" "?daysAgo < 180"
    using r3 by (simp_all add: Math_floor_def monthsBack_def floor_less_iff)
  have r5: "0 \<le> random E (k + 5)" "random E (k + 5) < 1" using rand by simp_all
  have r6: "0 \<le> random E (k + 6)" "random E (k + 6) < 1" using rand by simp_all
  have r7: "0 \<le> random E (k + 7)" "random E (k + 7) < 1" using rand by simp_all
  have r8: "0 \<le> random E (k + 8)" "random E (k + 8) < 1" using rand by simp_all
  note c1 = coordinate_bounds [OF r5 la]
  note c2 = coordinate_bounds [OF r6 lo]
  have wq: "2 \<le> of_int (Math_round ((random E (k + 7) * (9 - 2) + 2) * 10)) / (10::real)
      \<and> of_int (Math_round ((random E (k + 7) * (9 - 2) + 2) * 10)) / (10::real) \<le> 9"
    using round_scaled [of 10 2 "random E (k + 7) * (9 - 2) + 2" 9] range_bounds [OF r7, of 2 9]
    by simp
  have sc: "5 \<le> Math_floor (random E (k + 8) * (300 - 5) + 5)"
      "Math_floor (random E (k + 8) * (300 - 5) + 5) < 300"
    using r8 by (simp_all add: Math_floor_def le_floor_iff floor_less_iff)
  have ks: "Suc (Suc (Suc k)) = k + 3" "Suc (k + 3) = k + 4" "Suc (k + 4) = k + 5"
    "Suc (k + 5) = k + 6" "Suc (k + 6) = k + 7" "Suc (k + 7) = k + 8" "Suc (k + 8) = k + 9"
    "Suc (k + 9) = k + 10"
    by simp_all
  show ?thesis
    using rg sp st prof c1 c2 wq sc days
    by (simp add: make_doc_def randomInRange_def Math_random_def ks seeded_doc_def in_profile_def
        Let_def del: One_nat_def)
qed

lemma make_doc_threat:
  assumes "make_doc E k = (Inr d, k')"
  shows "threatLevel d = pickThreatByWaterQuality (waterQuality d)"
proof (cases "case fst (randomChoice E regions k) of None \<Rightarrow> None
                | Some rg \<Rightarrow> map_option (Pair rg) (regionProfiles rg)")
  case None
  with assms show ?thesis
    by (simp add: make_doc_def Let_def split_def)
next
  case (Some a)
  with assms show ?thesis
    by (cases a) (simp add: make_doc_def Let_def split_def, auto)
qed

lemma pickThreat_levels:
  "(pickThreatByWaterQuality wq = ''low'' \<longleftrightarrow> wq \<ge> 75 / 10)
   \<and> (pickThreatByWaterQuality wq = ''medium'' \<longleftrightarrow> 55 / 10 \<le> wq \<and> wq < 75 / 10)
   \<and> (pickThreatByWaterQuality wq = ''high'' \<longleftrightarrow> 35 / 10 \<le> wq \<and> wq < 55 / 10)
   \<and> (pickThreatByWaterQuality wq = ''critical'' \<longleftrightarrow> wq < 35 / 10)"
  by (simp add: pickThreatByWaterQuality_def)

subsection \<open>The loop\<close>

lemma make_docs_step:
  "i < totalDocs \<Longrightarrow> make_doc E k = (Inr d, k') \<Longrightarrow>
     make_docs E i k acc = make_docs E (Suc i) k' (acc @ [d])"
  by (subst make_docs.simps) simp

lemma make_docs_throw:
  "i < totalDocs \<Longrightarrow> make_doc E k = (Inl e, k') \<Longrightarrow> make_docs E i k acc = Inl e"
  by (subst make_docs.simps) simp

lemma make_docs_done:
  "\<not> i < totalDocs \<Longrightarrow> make_docs E i k acc = Inr acc"
  by (subst make_docs.simps) simp

text \<open>With draws in the unit interval the loop runs to its end and returns the documents.\<close>

lemma make_docs_ok:
  assumes rand: "\<forall>k. 0 \<le> random E k \<and> random E k < 1"
  shows "i \<le> totalDocs \<Longrightarrow> \<exists>new. make_docs E i k acc = Inr (acc @ new)
           \<and> length new = totalDocs - i \<and> (\<forall>d \<in> set new. seeded_doc (now_getTime E) d)"
proof (induction "totalDocs - i" arbitrary: i k acc)
  case 0
  then have "\<not> i < totalDocs" by simp
  then show ?case by (simp add: make_docs_done)
next
  case (Suc n)
  then have lt: "i < totalDocs" by simp
  obtain d where d: "make_doc E k = (Inr d, k + 10)" "seeded_doc (now_getTime E) d"
    using make_doc_ok [OF rand] by blast
  from Suc have "n = totalDocs - Suc i" "Suc i \<le> totalDocs" by simp_all
  then obtain new where new: "make_docs E (Suc i) (k + 10) (acc @ [d]) = Inr ((acc @ [d]) @ new)"
    "length new = totalDocs - Suc i" "\<forall>x \<in> set new. seeded_doc (now_getTime E) x"
    using Suc.hyps(1) by blast
  have "make_docs E i k acc = Inr (acc @ d # new)"
    using make_docs_step [OF lt d(1)] new(1) by simp
  moreover have "length (d # new) = totalDocs - i"
    using new(2) lt by simp
  ultimately show ?case
    using d(2) new(3) by (intro exI [of _ "d # new"]) simp
qed

text \<open>What holds of every document made holds of every document returned.\<close>

lemma make_docs_invariant:
  assumes "make_docs E i k acc = Inr docs"
    and "\<forall>d \<in> set acc. Q d"
    and "\<And>k d k'. make_doc E k = (Inr d, k') \<Longrightarrow> Q d"
  shows "\<forall>d \<in> set docs. Q d"
  using assms(1,2)
proof (induction "totalDocs - i" arbitrary: i k acc)
  case 0
  then have "\<not> i < totalDocs" by simp
  with 0 show ?case by (simp add: make_docs_done)
next
  case (Suc n)
  then have lt: "i < totalDocs" by simp
  obtain res k' where mk: "make_doc E k = (res, k')" by (cases "make_doc E k")
  show ?case
  proof (cases res)
    case (Inl e)
    with Suc.prems(1) lt mk show ?thesis by (simp add: make_docs_throw)
  next
    case (Inr d)
    with mk have d: "make_doc E k = (Inr d, k')" by simp
    have "make_docs E (Suc i) k' (acc @ [d]) = Inr docs"
      using Suc.prems(1) make_docs_step [OF lt d] by simp
    moreover have "\<forall>x \<in> set (acc @ [d]). Q x"
      using Suc.prems(2) assms(3) [OF d] by simp
    moreover have "n = totalDocs - Suc i" using Suc.hyps(2) by simp
    ultimately show ?thesis using Suc.hyps(1) by blast
  qed
qed

lemma make_docs_keeps:
  assumes "make_docs E i k acc = Inr docs"
  shows "set acc \<subseteq> set docs"
  using assms
proof (induction "totalDocs - i" arbitrary: i k acc)
  case 0
  then have "\<not> i < totalDocs" by simp
  with 0 show ?case by (simp add: make_docs_done)
next
  case (Suc n)
  then have lt: "i < totalDocs" by simp
  obtain res k' where mk: "make_doc E k = (res, k')" by (cases "make_doc E k")
  show ?case
  proof (cases res)
    case (Inl e)
    with Suc.prems(1) lt mk show ?thesis by (simp add: make_docs_throw)
  next
    case (Inr d)
    with mk have d: "make_doc E k = (Inr d, k')" by simp
    have "make_docs E (Suc i) k' (acc @ [d]) = Inr docs"
      using Suc.prems(1) make_docs_step [OF lt d] by simp
    moreover have "n = totalDocs - Suc i" using Suc.hyps(2) by simp
    ultimately have "set (acc @ [d]) \<subseteq> set docs" using Suc.hyps(1) by blast
    then show ?thesis by simp
  qed
qed

lemma make_docs_first:
  assumes "make_docs E 0 0 [] = Inr docs" and "make_doc E 0 = (Inr d, k')"
  shows "d \<in> set docs"
proof -
  have "make_docs E (Suc 0) k' ([] @ [d]) = Inr docs"
    using assms make_docs_step [of 0 E 0 d k' "[]"] by (simp add: totalDocs_def)
  from make_docs_keeps [OF this] show ?thesis by simp
qed

subsection \<open>The script\<close>

lemma main_try_inserted:
  assumes "connect E = Inr ()" and "createIndexes E = Inr ()" and "make_docs E 0 0 [] = Inr docs"
  shows "inserted (snd (main_try E)) = [(''species_observations'', docs)]"
  using assms
  by (simp add: main_try_def inserted_def index_specs_def Let_def split: sum.splits)

lemma main_inserted:
  assumes "getEnv E ''MONGODB_URI'' None = Some uri"
    and "getDbNameFromUri uri \<noteq> None \<or> getEnv E ''MONGODB_DB'' None \<noteq> None"
    and "new_MongoClient E uri = Inr ()"
  shows "inserted (snd (main E)) = inserted (snd (main_try E))"
  using assms
  by (auto simp add: main_def inserted_def Let_def split_def split: sum.splits option.splits)

lemma main_try_InsertMany:
  assumes "InsertMany c docs \<in> set (snd (main_try E))"
  shows "c = ''species_observations'' \<and> make_docs E 0 0 [] = Inr docs"
  using assms
  by (auto simp add: main_try_def index_specs_def Let_def split: sum.splits)

lemma main_InsertMany:
  assumes "InsertMany c docs \<in> set (snd (main E))"
  shows "InsertMany c docs \<in> set (snd (main_try E))"
  using assms
  by (auto simp add: main_def Let_def split_def split: sum.splits option.splits)

lemma demo_seed_random: "\<forall>k. 0 \<le> random demo_seed k \<and> random demo_seed k < 1"
proof
  fix k :: nat
  have "k mod 8 < 8" by simp
  then have "(of_nat (k mod 8) :: real) < 8" by (simp only: of_nat_less_numeral_iff)
  then show "0 \<le> random demo_seed k \<and> random demo_seed k < 1"
    by (simp add: demo_seed_def)
qed

lemma demo_seed_uri:
  "getEnv demo_seed ''MONGODB_URI'' None = Some ''mongodb://localhost:27017/oceanova''"
  by (simp add: getEnv_def demo_seed_def)

lemma demo_seed_db: "getDbNameFromUri ''mongodb://localhost:27017/oceanova'' = Some ''oceanova''"
  by code_simp

lemma toUpperCase_pacific: "toUpperCase ''pacific'' = ''PACIFIC''"
  by code_simp

lemma demo_first_doc: "make_doc demo_seed 0 = (Inr demo_doc, 10)"
  by (simp add: make_doc_def demo_seed_def demo_doc_def randomChoice_def randomInRange_def
      Math_random_def Math_floor_def Math_round_def regions_def speciesPool_def statuses_def
      regionProfiles_def monthsBack_def pickThreatByWaterQuality_def toUpperCase_pacific Let_def)

text \<open>
  Claim C6. When the script has its URI and a database name, the client is built, the
  connection and the index creation succeed, and \<open>Math.random\<close> returns values in
  [0, 1), the script calls \<open>insertMany\<close> exactly once, on \<open>species_observations\<close>,
  with exactly 100 documents. Each of them has a region among the four, a species from
  the pool of 20 names, a \<open>speciesCount\<close> in [5, 300), a \<open>waterQuality\<close> in
  [2, 9], a latitude and a longitude within the profile of its region, and a
  \<open>createdAt\<close> that is not after the run time and at most 180 days before it.
\<close>

theorem seed_inserts_100_documents:
  assumes "\<forall>k. 0 \<le> random E k \<and> random E k < 1"
    and "getEnv E ''MONGODB_URI'' None = Some uri"
    and "getDbNameFromUri uri \<noteq> None \<or> getEnv E ''MONGODB_DB'' None \<noteq> None"
    and "new_MongoClient E uri = Inr ()"
    and "connect E = Inr ()"
    and "createIndexes E = Inr ()"
  shows "(\<exists>docs. inserted (snd (main E)) = [(''species_observations'', docs)]
           \<and> length docs = 100
           \<and> (\<forall>d \<in> set docs. seeded_doc (now_getTime E) d))
    \<and> set regions = {''pacific'', ''atlantic'', ''indian'', ''arctic''}
    \<and> length speciesPool = 20"
proof -
  obtain docs where docs: "make_docs E 0 0 [] = Inr docs" "length docs = totalDocs"
    "\<forall>d \<in> set docs. seeded_doc (now_getTime E) d"
    using make_docs_ok [OF assms(1), of 0 0 "[]"] by auto
  have "inserted (snd (main E)) = [(''species_observations'', docs)]"
    using main_inserted [OF assms(2,3,4)] main_try_inserted [OF assms(5,6) docs(1)] by simp
  with docs(2,3) have "\<exists>docs. inserted (snd (main E)) = [(''species_observations'', docs)]
           \<and> length docs = 100
           \<and> (\<forall>d \<in> set docs. seeded_doc (now_getTime E) d)"
    by (auto simp add: totalDocs_def)
  moreover have "set regions = {''pacific'', ''atlantic'', ''indian'', ''arctic''}"
    by (simp add: regions_def)
  moreover have "length speciesPool = 20"
    by (simp add: speciesPool_def)
  ultimately show ?thesis by blast
qed

theorem seed_inserts_100_documents_witness:
  "(\<forall>k. 0 \<le> random demo_seed k \<and> random demo_seed k < 1)
   \<and> getEnv demo_seed ''MONGODB_URI'' None = Some ''mongodb://localhost:27017/oceanova''
   \<and> getDbNameFromUri ''mongodb://localhost:27017/oceanova'' = Some ''oceanova''
   \<and> (\<exists>docs. inserted (snd (main demo_seed)) = [(''species_observations'', docs)]
           \<and> length docs = 100
           \<and> (\<forall>d \<in> set docs. seeded_doc (now_getTime demo_seed) d))"
proof -
  have "\<exists>docs. inserted (snd (main demo_seed)) = [(''species_observations'', docs)]
           \<and> length docs = 100
           \<and> (\<forall>d \<in> set docs. seeded_doc (now_getTime demo_seed) d)"
    using seed_inserts_100_documents [of demo_seed "''mongodb://localhost:27017/oceanova''", THEN conjunct1]
      demo_seed_random demo_seed_uri demo_seed_db
    by (simp add: demo_seed_def)
  with demo_seed_random demo_seed_uri demo_seed_db show ?thesis by blast
qed

text \<open>
  Claim C10. In every document the seed script inserts, \<open>threatLevel\<close> is
  \<open>pickThreatByWaterQuality\<close> of its \<open>waterQuality\<close>: ``low'' exactly when the
  water quality is at least 7.5, ``medium'' exactly when it is at least 5.5 and below
  7.5, ``high'' exactly when it is at least 3.5 and below 5.5, and ``critical'' exactly
  when it is below 3.5.
\<close>

theorem threat_level_by_water_quality:
  assumes "InsertMany c docs \<in> set (snd (main E))" and "d \<in> set docs"
  shows "threatLevel d = pickThreatByWaterQuality (waterQuality d)
    \<and> (threatLevel d = ''low'' \<longleftrightarrow> waterQuality d \<ge> 75 / 10)
    \<and> (threatLevel d = ''medium'' \<longleftrightarrow> 55 / 10 \<le> waterQuality d \<and> waterQuality d < 75 / 10)
    \<and> (threatLevel d = ''high'' \<longleftrightarrow> 35 / 10 \<le> waterQuality d \<and> waterQuality d < 55 / 10)
    \<and> (threatLevel d = ''critical'' \<longleftrightarrow> waterQuality d < 35 / 10)"
proof -
  have "make_docs E 0 0 [] = Inr docs"
    using main_try_InsertMany [OF main_InsertMany [OF assms(1)]] by simp
  then have "\<forall>x \<in> set docs. threatLevel x = pickThreatByWaterQuality (waterQuality x)"
    by (rule make_docs_invariant) (simp_all add: make_doc_threat)
  with assms(2) have "threatLevel d = pickThreatByWaterQuality (waterQuality d)" by blast
  then show ?thesis using pickThreat_levels [of "waterQuality d"] by simp
qed

theorem threat_level_by_water_quality_witness:
  "InsertMany ''species_observations'' demo_docs \<in> set (snd (main demo_seed))
   \<and> demo_doc \<in> set demo_docs
   \<and> waterQuality demo_doc = 81 / 10
   \<and> threatLevel demo_doc = ''low''
   \<and> threatLevel demo_doc = pickThreatByWaterQuality (waterQuality demo_doc)"
proof -
  obtain docs where docs: "make_docs demo_seed 0 0 [] = Inr docs"
    using make_docs_ok [OF demo_seed_random, of 0 0 "[]"] by auto
  then have dd: "make_docs demo_seed 0 0 [] = Inr demo_docs"
    by (simp add: demo_docs_def)
  have ins: "InsertMany ''species_observations'' demo_docs \<in> set (snd (main demo_seed))"
    using dd demo_seed_uri demo_seed_db
    by (simp add: main_def main_try_def Let_def demo_seed_def)
  have mem: "demo_doc \<in> set demo_docs"
    using make_docs_first [OF dd demo_first_doc] .
  show ?thesis
    using threat_level_by_water_quality [OF ins mem] ins mem
    by (simp add: demo_doc_def)
qed

end
